theory Spec2Isabelle
  imports Main
begin

section \<open>Python values, strings and the operations the two modules use\<close>

text \<open>
  A specification document is what \<^verbatim>\<open>yaml.safe_load\<close> (or the outline parser)
  returns: a dictionary whose values are scalars, lists and dictionaries. The model keeps
  the scalars \<^verbatim>\<open>None\<close>, booleans, integers and strings; dictionary keys are strings,
  and a dictionary is an association list in insertion order (the first binding of a key
  is the one a lookup finds). Floats and timestamps are left out. A character is a code
  point below 256; the character classes below are the ones Python gives to that range.
\<close>

text \<open>
  The exceptions the modelled code can raise: \<^verbatim>\<open>TypeError\<close> (iterating, measuring or
  searching a value that does not support it) and \<^verbatim>\<open>AttributeError\<close> (calling
  \<^verbatim>\<open>get\<close> on a value that is no dictionary). A function that can raise returns a sum,
  \<open>Inl\<close> the exception.
\<close>

datatype py_error = TypeError | AttributeError

datatype pyval =
    PNone
  | PBool bool
  | PInt int
  | PStr string
  | PList "pyval list"
  | PDict "(string \<times> pyval) list"

type_synonym pydict = "(string \<times> pyval) list"

abbreviation apos :: string where
  "apos \<equiv> [CHR 0x27]"

subsection \<open>str.lower, the in operator on strings, startswith\<close>

definition is_upper_char :: "char \<Rightarrow> bool" where
  "is_upper_char c =
     (let n = (of_char c :: nat)
      in (65 \<le> n \<and> n \<le> 90) \<or> (192 \<le> n \<and> n \<le> 222 \<and> n \<noteq> 215))"

definition lower_char :: "char \<Rightarrow> char" where
  "lower_char c = (if is_upper_char c then char_of ((of_char c :: nat) + 32) else c)"

definition lower :: "string \<Rightarrow> string" where
  "lower s = map lower_char s"

fun startswith :: "string \<Rightarrow> string \<Rightarrow> bool" where
  "startswith s [] = True"
| "startswith [] (p # ps) = False"
| "startswith (c # cs) (p # ps) = (c = p \<and> startswith cs ps)"

text \<open>\<^verbatim>\<open>needle in hay\<close> for two strings: \<open>str_in needle hay\<close>.\<close>

fun str_in :: "string \<Rightarrow> string \<Rightarrow> bool" where
  "str_in needle [] = (needle = [])"
| "str_in needle (c # cs) = (startswith (c # cs) needle \<or> str_in needle cs)"

text \<open>\<^verbatim>\<open>any(k in text for k in keywords)\<close>.\<close>

definition any_in :: "string list \<Rightarrow> string \<Rightarrow> bool" where
  "any_in keywords text = list_ex (\<lambda>k. str_in k text) keywords"

subsection \<open>str and repr\<close>

definition digit_char :: "nat \<Rightarrow> char" where
  "digit_char n = char_of (48 + n)"

fun str_of_nat :: "nat \<Rightarrow> string" where
  "str_of_nat n =
     (if n < 10 then [digit_char n] else str_of_nat (n div 10) @ [digit_char (n mod 10)])"

declare str_of_nat.simps [simp del]

definition str_of_int :: "int \<Rightarrow> string" where
  "str_of_int i = (if i < 0 then CHR ''-'' # str_of_nat (nat (- i)) else str_of_nat (nat i))"

definition hex_digit :: "nat \<Rightarrow> char" where
  "hex_digit n = (if n < 10 then char_of (48 + n) else char_of (87 + n))"

definition is_printable :: "char \<Rightarrow> bool" where
  "is_printable c =
     (let n = (of_char c :: nat)
      in (32 \<le> n \<and> n \<le> 126) \<or> (161 \<le> n \<and> n \<noteq> 173))"

definition repr_char :: "char \<Rightarrow> char \<Rightarrow> string" where
  "repr_char q c =
     (if c = q \<or> c = CHR 0x5C then [CHR 0x5C, c]
      else if c = CHR 0x09 then [CHR 0x5C, CHR ''t'']
      else if c = CHR 0x0A then [CHR 0x5C, CHR ''n'']
      else if c = CHR 0x0D then [CHR 0x5C, CHR ''r'']
      else if is_printable c then [c]
      else [CHR 0x5C, CHR ''x'',
            hex_digit ((of_char c :: nat) div 16), hex_digit ((of_char c :: nat) mod 16)])"

definition repr_str :: "string \<Rightarrow> string" where
  "repr_str s =
     (let q = (if CHR 0x27 \<in> set s \<and> CHR 0x22 \<notin> set s then CHR 0x22 else CHR 0x27)
      in q # concat (map (repr_char q) s) @ [q])"

fun join :: "string \<Rightarrow> string list \<Rightarrow> string" where
  "join sep [] = []"
| "join sep [x] = x"
| "join sep (x # y # ys) = x @ sep @ join sep (y # ys)"

fun py_repr :: "pyval \<Rightarrow> string" where
  "py_repr PNone = ''None''"
| "py_repr (PBool b) = (if b then ''True'' else ''False'')"
| "py_repr (PInt i) = str_of_int i"
| "py_repr (PStr s) = repr_str s"
| "py_repr (PList xs) = ''['' @ join '', '' (map py_repr xs) @ '']''"
| "py_repr (PDict kvs) =
     ''{'' @ join '', '' (map (\<lambda>kv. repr_str (fst kv) @ '': '' @ py_repr (snd kv)) kvs) @ ''}''"

text \<open>\<^verbatim>\<open>str(x)\<close>: a string is itself, everything else is its repr.\<close>

fun py_str :: "pyval \<Rightarrow> string" where
  "py_str (PStr s) = s"
| "py_str v = py_repr v"

text \<open>
  The idiom \<^verbatim>\<open>x if isinstance(x, str) else str(x)\<close> of both modules is \<open>py_str x\<close>
  as well.
\<close>

subsection \<open>Truth value, iteration, len, dictionary lookup\<close>

fun truthy :: "pyval \<Rightarrow> bool" where
  "truthy PNone = False"
| "truthy (PBool b) = b"
| "truthy (PInt i) = (i \<noteq> 0)"
| "truthy (PStr s) = (s \<noteq> [])"
| "truthy (PList xs) = (xs \<noteq> [])"
| "truthy (PDict kvs) = (kvs \<noteq> [])"

text \<open>
  What a \<^verbatim>\<open>for\<close> loop, \<^verbatim>\<open>enumerate\<close> or \<^verbatim>\<open>list.extend\<close> sees: the items
  of a list, the characters of a string, the keys of a dictionary; \<^verbatim>\<open>None\<close>, booleans
  and integers are not iterable and raise \<^verbatim>\<open>TypeError\<close>.
\<close>

fun py_iter :: "pyval \<Rightarrow> py_error + pyval list" where
  "py_iter (PList xs) = Inr xs"
| "py_iter (PStr s) = Inr (map (\<lambda>c. PStr [c]) s)"
| "py_iter (PDict kvs) = Inr (map (\<lambda>kv. PStr (fst kv)) kvs)"
| "py_iter v = Inl TypeError"

fun py_len :: "pyval \<Rightarrow> py_error + nat" where
  "py_len (PList xs) = Inr (length xs)"
| "py_len (PStr s) = Inr (length s)"
| "py_len (PDict kvs) = Inr (length kvs)"
| "py_len v = Inl TypeError"

text \<open>\<^verbatim>\<open>key in d\<close> and \<^verbatim>\<open>d.get(key, default)\<close>.\<close>

definition has_key :: "pydict \<Rightarrow> string \<Rightarrow> bool" where
  "has_key d k = (map_of d k \<noteq> None)"

definition dict_get :: "pydict \<Rightarrow> string \<Rightarrow> pyval \<Rightarrow> pyval" where
  "dict_get d k dflt = (case map_of d k of None \<Rightarrow> dflt | Some v \<Rightarrow> v)"

text \<open>
  \<^verbatim>\<open>spec.get('metadata', {}).get('name', 'unknown')\<close>: the inner \<^verbatim>\<open>get\<close> exists
  on a dictionary only.
\<close>

definition metadata_name :: "pydict \<Rightarrow> py_error + pyval" where
  "metadata_name d =
     (case dict_get d ''metadata'' (PDict []) of
        PDict m \<Rightarrow> Inr (dict_get m ''name'' (PStr ''unknown''))
      | _ \<Rightarrow> Inl AttributeError)"

section \<open>Adversarial review (src/adversarial/review.py)\<close>

datatype Severity = CRITICAL | HIGH | MEDIUM | LOW | INFO

text \<open>The \<^verbatim>\<open>value\<close> of a member of the enumeration.\<close>

fun severity_value :: "Severity \<Rightarrow> string" where
  "severity_value CRITICAL = ''CRITICAL''"
| "severity_value HIGH = ''HIGH''"
| "severity_value MEDIUM = ''MEDIUM''"
| "severity_value LOW = ''LOW''"
| "severity_value INFO = ''INFO''"

record AdversarialFinding =
  adversary :: string
  severity :: Severity
  issue :: string
  details :: string
  attack_vector :: "string option"
  misinterpretation :: "string option"
  suggested_defense :: "string option"
  location :: "string option"

record AdversarialReport =
  spec_name :: pyval
  total_findings :: nat
  critical_findings :: nat
  findings_by_adversary :: "(string \<times> AdversarialFinding list) list"
  defended_spec_changes :: "(string \<times> string) list list"
  approval_status :: string
  human_review_required :: bool

text \<open>
  The state of an \<^verbatim>\<open>AdversaryAgent\<close> object. Every check method takes the object and
  the document and returns the object with the findings it appended; a method that can
  raise returns a sum.
\<close>

record AdversaryAgent =
  name :: string
  findings :: "AdversarialFinding list"

definition append_finding :: "AdversaryAgent \<Rightarrow> AdversarialFinding \<Rightarrow> AdversaryAgent" where
  "append_finding self f = self\<lparr>findings := findings self @ [f]\<rparr>"

subsection \<open>SecurityAdversary\<close>

definition Security_check_authentication :: "AdversaryAgent \<Rightarrow> pydict \<Rightarrow> AdversaryAgent" where
  "Security_check_authentication self spec =
     (let spec_text = lower (py_str (PDict spec));
          user_actions = [''create'', ''update'', ''delete'', ''modify'', ''submit'', ''approve''];
          has_user_actions = any_in user_actions spec_text;
          auth_keywords = [''authenticate'', ''authentication'', ''login'', ''jwt'', ''oauth'', ''token''];
          has_auth = any_in auth_keywords spec_text;
          self1 = (if has_user_actions \<and> \<not> has_auth
                   then append_finding self
                     \<lparr>adversary = name self, severity = CRITICAL,
                      issue = ''Missing authentication requirements'',
                      details = ''Spec defines user actions but doesn't specify authentication'',
                      attack_vector = Some ''Unauthenticated access to user functions'',
                      misinterpretation = None,
                      suggested_defense = Some ''Add explicit authentication requirements for all user actions'',
                      location = None\<rparr>
                   else self)
      in if has_auth \<and> \<not> str_in ''session'' spec_text \<and> \<not> str_in ''token'' spec_text
         then append_finding self1
           \<lparr>adversary = name self1, severity = HIGH,
            issue = ''No session management specified'',
            details = ''Authentication mentioned but no session/token management'',
            attack_vector = Some ''Session hijacking, token replay attacks'',
            misinterpretation = None,
            suggested_defense = Some ''Specify session timeout, token refresh, and revocation mechanisms'',
            location = None\<rparr>
         else self1)"

definition Security_check_authorization :: "AdversaryAgent \<Rightarrow> pydict \<Rightarrow> AdversaryAgent" where
  "Security_check_authorization self spec =
     (let spec_text = lower (py_str (PDict spec));
          role_keywords = [''admin'', ''user'', ''manager'', ''owner'', ''member''];
          has_roles = any_in role_keywords spec_text;
          authz_keywords = [''authorization'', ''permission'', ''access control'', ''rbac'', ''acl''];
          has_authz = any_in authz_keywords spec_text
      in if has_roles \<and> \<not> has_authz
         then append_finding self
           \<lparr>adversary = name self, severity = HIGH,
            issue = ''Missing authorization requirements'',
            details = ''Spec mentions roles but no authorization checks'',
            attack_vector = Some ''Privilege escalation, unauthorized access'',
            misinterpretation = None,
            suggested_defense = Some ''Add explicit authorization checks for all role-based operations'',
            location = None\<rparr>
         else self)"

definition Security_check_data_protection :: "AdversaryAgent \<Rightarrow> pydict \<Rightarrow> AdversaryAgent" where
  "Security_check_data_protection self spec =
     (let spec_text = lower (py_str (PDict spec));
          pii_keywords = [''email'', ''phone'', ''address'', ''ssn'', ''social security'',
                          ''credit card'', ''payment'', ''password'', ''date of birth''];
          has_pii = any_in pii_keywords spec_text;
          encryption_keywords = [''encrypt'', ''encryption'', ''hashed'', ''bcrypt'', ''aes''];
          has_encryption = any_in encryption_keywords spec_text;
          self1 = (if has_pii \<and> \<not> has_encryption
                   then append_finding self
                     \<lparr>adversary = name self, severity = CRITICAL,
                      issue = ''Unprotected sensitive data'',
                      details = ''Spec handles PII but doesn't specify encryption'',
                      attack_vector = Some ''Data breach, compliance violations'',
                      misinterpretation = None,
                      suggested_defense = Some ''Require encryption at rest and in transit for all PII'',
                      location = None\<rparr>
                   else self)
      in if str_in ''log'' spec_text \<and> has_pii
         then (if \<not> str_in ''redact'' spec_text \<and> \<not> str_in ''mask'' spec_text
               then append_finding self1
                 \<lparr>adversary = name self1, severity = HIGH,
                  issue = ''Potential sensitive data in logs'',
                  details = ''Logging mentioned with PII but no redaction specified'',
                  attack_vector = Some ''Information disclosure through logs'',
                  misinterpretation = None,
                  suggested_defense = Some ''Specify PII redaction/masking in all logs'',
                  location = None\<rparr>
               else self1)
         else self1)"

definition Security_check_injection_risks :: "AdversaryAgent \<Rightarrow> pydict \<Rightarrow> AdversaryAgent" where
  "Security_check_injection_risks self spec =
     (let spec_text = lower (py_str (PDict spec));
          db_keywords = [''database'', ''sql'', ''query'', ''select'', ''insert'', ''update'', ''delete''];
          has_db = any_in db_keywords spec_text;
          protection_keywords = [''parameterized'', ''prepared statement'', ''sanitize'', ''escape''];
          has_protection = any_in protection_keywords spec_text;
          self1 = (if has_db \<and> \<not> has_protection
                   then append_finding self
                     \<lparr>adversary = name self, severity = HIGH,
                      issue = ''SQL injection risk'',
                      details = ''Database operations without parameterization requirements'',
                      attack_vector = Some ''SQL injection attacks'',
                      misinterpretation = None,
                      suggested_defense = Some ''Require parameterized queries for all database operations'',
                      location = None\<rparr>
                   else self);
          cmd_keywords = [''execute'', ''shell'', ''command'', ''system'', ''exec'']
      in if any_in cmd_keywords spec_text
         then append_finding self1
           \<lparr>adversary = name self1, severity = CRITICAL,
            issue = ''Command injection risk'',
            details = ''Spec involves command execution'',
            attack_vector = Some ''Remote code execution'',
            misinterpretation = None,
            suggested_defense = Some ''Avoid shell commands; if required, specify strict input validation'',
            location = None\<rparr>
         else self1)"

definition Security_check_validation :: "AdversaryAgent \<Rightarrow> pydict \<Rightarrow> AdversaryAgent" where
  "Security_check_validation self spec =
     (let spec_text = lower (py_str (PDict spec));
          input_keywords = [''input'', ''form'', ''upload'', ''parameter'', ''request''];
          has_input = any_in input_keywords spec_text;
          validation_keywords = [''validate'', ''validation'', ''sanitize'', ''whitelist'', ''regex''];
          has_validation = any_in validation_keywords spec_text
      in if has_input \<and> \<not> has_validation
         then append_finding self
           \<lparr>adversary = name self, severity = HIGH,
            issue = ''Missing input validation'',
            details = ''User input accepted without validation requirements'',
            attack_vector = Some ''XSS, injection attacks, buffer overflow'',
            misinterpretation = None,
            suggested_defense = Some ''Specify validation rules for all user inputs'',
            location = None\<rparr>
         else self)"

subsection \<open>AmbiguityAdversary\<close>

text \<open>The table \<^verbatim>\<open>self.vague_terms\<close>, in insertion order.\<close>

definition vague_terms :: "(string \<times> string) list" where
  "vague_terms =
     [(''should'', ''Use 'MUST' for requirements''),
      (''may'', ''Use 'MUST' or 'MUST NOT' for clarity''),
      (''might'', ''Be explicit about optionality''),
      (''could'', ''Use 'MUST' or 'MAY' per RFC 2119''),
      (''consider'', ''Specify exact requirements''),
      (''appropriate'', ''Define what is appropriate''),
      (''reasonable'', ''Specify exact bounds''),
      (''timely'', ''Specify exact time limits''),
      (''efficient'', ''Define performance metrics''),
      (''secure'', ''Specify security requirements''),
      (''user-friendly'', ''Define specific UX requirements''),
      (''scalable'', ''Specify scalability metrics''),
      (''robust'', ''Define failure scenarios''),
      (''flexible'', ''Specify variation points'')]"

definition generate_misinterpretation :: "string \<Rightarrow> string \<Rightarrow> string" where
  "generate_misinterpretation requirement vague_term =
     (let misinterpretations =
            [(''should'', ''Interpreted as optional - skipping this requirement''),
             (''may'', ''Interpreted as 'will not' - opposite of intended''),
             (''appropriate'', ''Interpreted as 'minimal' - lowest effort implementation''),
             (''reasonable'', ''Interpreted as 'unlimited' - no bounds applied''),
             (''secure'', ''Interpreted as 'basic auth only' - minimal security'')]
      in case map_of misinterpretations vague_term of
           Some m \<Rightarrow> m
         | None \<Rightarrow> ''Interpreted '' @ apos @ vague_term @ apos @ '' in the most permissive way possible'')"

text \<open>The finding one matched term of one requirement produces.\<close>

definition vague_term_finding :: "string \<Rightarrow> string \<Rightarrow> string \<Rightarrow> string \<Rightarrow> AdversarialFinding" where
  "vague_term_finding self_name req_text term suggestion =
     \<lparr>adversary = self_name, severity = MEDIUM,
      issue = ''Ambiguous term '' @ apos @ term @ apos @ '' in requirement'',
      details = ''Requirement: '' @ take 100 req_text @ ''...'',
      attack_vector = None,
      misinterpretation = Some (generate_misinterpretation req_text term),
      suggested_defense = Some suggestion,
      location = Some (''requirement: '' @ take 50 req_text)\<rparr>"

text \<open>The body of \<^verbatim>\<open>for term, suggestion in self.vague_terms.items()\<close> for one requirement.\<close>

fun scan_terms :: "(string \<times> string) list \<Rightarrow> string \<Rightarrow> AdversaryAgent \<Rightarrow> AdversaryAgent" where
  "scan_terms [] req_text self = self"
| "scan_terms ((term, suggestion) # rest) req_text self =
     scan_terms rest req_text
       (if str_in term (lower req_text)
        then append_finding self (vague_term_finding (name self) req_text term suggestion)
        else self)"

text \<open>The loop \<^verbatim>\<open>for req in requirements\<close>.\<close>

fun scan_requirements :: "pyval list \<Rightarrow> AdversaryAgent \<Rightarrow> AdversaryAgent" where
  "scan_requirements [] self = self"
| "scan_requirements (req # reqs) self =
     scan_requirements reqs (scan_terms vague_terms (py_str req) self)"

text \<open>
  \<^verbatim>\<open>if key in spec: requirements.extend(spec[key])\<close>: what the section adds to the list,
  or the \<^verbatim>\<open>TypeError\<close> of extending by a value that is not iterable.
\<close>

definition extend_from :: "pydict \<Rightarrow> string \<Rightarrow> py_error + pyval list" where
  "extend_from spec k = (case map_of spec k of None \<Rightarrow> Inr [] | Some v \<Rightarrow> py_iter v)"

definition Ambiguity_check_requirements :: "AdversaryAgent \<Rightarrow> pydict \<Rightarrow> py_error + AdversaryAgent" where
  "Ambiguity_check_requirements self spec =
     (case extend_from spec ''functional_requirements'' of
        Inl e \<Rightarrow> Inl e
      | Inr frs \<Rightarrow>
          (case extend_from spec ''non_functional_requirements'' of
             Inl e \<Rightarrow> Inl e
           | Inr nfrs \<Rightarrow> Inr (scan_requirements (frs @ nfrs) self)))"

text \<open>
  The regular expressions of \<^verbatim>\<open>_check_boundaries\<close>. \<open>is_word_char\<close> is the class
  \<^verbatim>\<open>\w\<close> and \<open>is_digit_char\<close> the class \<^verbatim>\<open>\d\<close> of a Unicode pattern, on code
  points below 256.
\<close>

definition is_word_char :: "char \<Rightarrow> bool" where
  "is_word_char c =
     (let n = (of_char c :: nat)
      in (48 \<le> n \<and> n \<le> 57) \<or> (65 \<le> n \<and> n \<le> 90) \<or> n = 95 \<or> (97 \<le> n \<and> n \<le> 122)
         \<or> n = 170 \<or> n = 178 \<or> n = 179 \<or> n = 181 \<or> n = 185 \<or> n = 186
         \<or> (188 \<le> n \<and> n \<le> 190) \<or> (192 \<le> n \<and> n \<le> 214) \<or> (216 \<le> n \<and> n \<le> 246)
         \<or> 248 \<le> n)"

definition is_digit_char :: "char \<Rightarrow> bool" where
  "is_digit_char c = (let n = (of_char c :: nat) in 48 \<le> n \<and> n \<le> 57)"

definition next_is_word :: "string \<Rightarrow> bool" where
  "next_is_word s = (case s of [] \<Rightarrow> False | c # cs \<Rightarrow> is_word_char c)"

text \<open>
  \<^verbatim>\<open>re.search(r'\b(w1|...|wn)\b', text, re.IGNORECASE)\<close> for lower-case words: some
  position that no word character precedes starts one of the words, in any case, and no
  word character follows it. \<open>prev\<close> says whether a word character precedes the text.
\<close>

fun search_whole_word :: "string list \<Rightarrow> bool \<Rightarrow> string \<Rightarrow> bool" where
  "search_whole_word ws prev [] = False"
| "search_whole_word ws prev (c # cs) =
     ((\<not> prev \<and>
       list_ex (\<lambda>w. startswith (lower (take (length w) (c # cs))) w
                     \<and> \<not> next_is_word (drop (length w) (c # cs))) ws)
      \<or> search_whole_word ws (is_word_char c) cs)"

text \<open>The loop \<^verbatim>\<open>for term in time_terms\<close>.\<close>

fun scan_time_terms :: "string list \<Rightarrow> string \<Rightarrow> AdversaryAgent \<Rightarrow> AdversaryAgent" where
  "scan_time_terms [] spec_text self = self"
| "scan_time_terms (term # rest) spec_text self =
     scan_time_terms rest spec_text
       (if str_in term (lower spec_text)
        then append_finding self
          \<lparr>adversary = name self, severity = MEDIUM,
           issue = ''Vague time reference: '' @ apos @ term @ apos,
           details = ''Time constraint is not specific'',
           attack_vector = None,
           misinterpretation = Some ''Could mean milliseconds or days'',
           suggested_defense = Some ''Specify exact time limits (e.g., 'within 5 seconds')'',
           location = None\<rparr>
        else self)"

definition Ambiguity_check_boundaries :: "AdversaryAgent \<Rightarrow> pydict \<Rightarrow> AdversaryAgent" where
  "Ambiguity_check_boundaries self spec =
     (let spec_text = py_str (PDict spec);
          self1 =
            (if search_whole_word
                  [''number'', ''count'', ''size'', ''length'', ''amount'', ''quantity''] False spec_text
             then (if \<not> (any_in [''min'', ''max'', ''between'', ''less than'', ''greater than''] spec_text
                          \<or> list_ex is_digit_char spec_text)
                   then append_finding self
                     \<lparr>adversary = name self, severity = HIGH,
                      issue = ''Unbounded numeric values'',
                      details = ''Numeric values mentioned without limits'',
                      attack_vector = None,
                      misinterpretation = Some ''Could accept 0, negative, or extremely large values'',
                      suggested_defense = Some ''Specify min/max bounds for all numeric inputs'',
                      location = None\<rparr>
                   else self)
             else self);
          time_terms = [''soon'', ''quickly'', ''eventually'', ''periodically'', ''regularly'']
      in scan_time_terms time_terms spec_text self1)"

text \<open>The loop \<^verbatim>\<open>for term in error_terms\<close>.\<close>

fun scan_error_terms :: "string list \<Rightarrow> string \<Rightarrow> AdversaryAgent \<Rightarrow> AdversaryAgent" where
  "scan_error_terms [] spec_text self = self"
| "scan_error_terms (term # rest) spec_text self =
     scan_error_terms rest spec_text
       (if str_in term spec_text
        then append_finding self
          \<lparr>adversary = name self, severity = MEDIUM,
           issue = ''Vague error handling'',
           details = ''Error handling specified as '' @ apos @ term @ apos,
           attack_vector = None,
           misinterpretation = Some ''Could ignore errors or crash application'',
           suggested_defense = Some ''Specify exact error handling: log, retry, fallback, etc.'',
           location = None\<rparr>
        else self)"

definition Ambiguity_check_error_handling :: "AdversaryAgent \<Rightarrow> pydict \<Rightarrow> AdversaryAgent" where
  "Ambiguity_check_error_handling self spec =
     (let spec_text = lower (py_str (PDict spec))
      in if str_in ''error'' spec_text \<or> str_in ''exception'' spec_text
         then scan_error_terms
                [''handle appropriately'', ''deal with errors'', ''manage exceptions''] spec_text self
         else self)"

subsection \<open>ImplementationAdversary\<close>

definition Implementation_check_edge_cases :: "AdversaryAgent \<Rightarrow> pydict \<Rightarrow> AdversaryAgent" where
  "Implementation_check_edge_cases self spec =
     (let spec_text = lower (py_str (PDict spec));
          self1 =
            (if str_in ''create'' spec_text \<or> str_in ''add'' spec_text
             then (if \<not> str_in ''duplicate'' spec_text
                   then append_finding self
                     \<lparr>adversary = name self, severity = MEDIUM,
                      issue = ''Unspecified duplicate handling'',
                      details = ''Creation operation without duplicate policy'',
                      attack_vector = None,
                      misinterpretation = Some ''Allow duplicate creation, causing data inconsistency'',
                      suggested_defense = Some ''Specify behavior for duplicate creation attempts'',
                      location = None\<rparr>
                   else self)
             else self);
          self2 =
            (if str_in ''delete'' spec_text \<or> str_in ''remove'' spec_text
             then (if \<not> str_in ''not found'' spec_text \<and> \<not> str_in ''not exist'' spec_text
                   then append_finding self1
                     \<lparr>adversary = name self1, severity = MEDIUM,
                      issue = ''Unspecified missing resource handling'',
                      details = ''Delete operation without 'not found' behavior'',
                      attack_vector = None,
                      misinterpretation = Some ''Silent failure or crash on missing resource'',
                      suggested_defense = Some ''Specify behavior when deleting non-existent items'',
                      location = None\<rparr>
                   else self1)
             else self1)
      in if str_in ''list'' spec_text \<or> str_in ''query'' spec_text
         then (if \<not> str_in ''empty'' spec_text \<and> \<not> str_in ''no results'' spec_text
               then append_finding self2
                 \<lparr>adversary = name self2, severity = LOW,
                  issue = ''Unspecified empty result handling'',
                  details = ''Query operation without empty result specification'',
                  attack_vector = None,
                  misinterpretation = Some ''Return null instead of empty array'',
                  suggested_defense = Some ''Specify response format for empty results'',
                  location = None\<rparr>
               else self2)
         else self2)"

definition Implementation_check_race_conditions :: "AdversaryAgent \<Rightarrow> pydict \<Rightarrow> AdversaryAgent" where
  "Implementation_check_race_conditions self spec =
     (let spec_text = lower (py_str (PDict spec));
          concurrent_keywords = [''concurrent'', ''parallel'', ''simultaneous'', ''multiple users''];
          has_concurrency = any_in concurrent_keywords spec_text;
          sync_keywords = [''lock'', ''mutex'', ''synchronize'', ''atomic'', ''transaction''];
          has_sync = any_in sync_keywords spec_text;
          self1 =
            (if has_concurrency \<and> \<not> has_sync
             then append_finding self
               \<lparr>adversary = name self, severity = HIGH,
                issue = ''Race condition risk'',
                details = ''Concurrent operations without synchronization'',
                attack_vector = None,
                misinterpretation = Some ''Implement without thread safety'',
                suggested_defense = Some ''Specify locking/transaction requirements'',
                location = None\<rparr>
             else self)
      in if str_in ''update'' spec_text \<and> (str_in ''based on'' spec_text \<or> str_in ''if'' spec_text)
         then (if \<not> str_in ''atomic'' spec_text \<and> \<not> str_in ''transaction'' spec_text
               then append_finding self1
                 \<lparr>adversary = name self1, severity = HIGH,
                  issue = ''Non-atomic read-modify-write'',
                  details = ''Conditional update without atomicity requirement'',
                  attack_vector = None,
                  misinterpretation = Some ''Implement with separate read and write operations'',
                  suggested_defense = Some ''Require atomic compare-and-swap or transactions'',
                  location = None\<rparr>
               else self1)
         else self1)"

definition Implementation_check_state_management :: "AdversaryAgent \<Rightarrow> pydict \<Rightarrow> AdversaryAgent" where
  "Implementation_check_state_management self spec =
     (let spec_text = lower (py_str (PDict spec));
          state_keywords = [''status'', ''state'', ''workflow'', ''lifecycle''];
          has_state = any_in state_keywords spec_text
      in if has_state
         then (let transition_keywords = [''transition'', ''valid states'', ''state machine'', ''allowed''];
                   has_transitions = any_in transition_keywords spec_text
               in if \<not> has_transitions
                  then append_finding self
                    \<lparr>adversary = name self, severity = MEDIUM,
                     issue = ''Undefined state transitions'',
                     details = ''Stateful system without transition rules'',
                     attack_vector = None,
                     misinterpretation = Some ''Allow any state transition'',
                     suggested_defense = Some ''Define valid states and allowed transitions'',
                     location = None\<rparr>
                  else self)
         else self)"

definition Implementation_check_error_recovery :: "AdversaryAgent \<Rightarrow> pydict \<Rightarrow> AdversaryAgent" where
  "Implementation_check_error_recovery self spec =
     (let spec_text = lower (py_str (PDict spec))
      in if str_in ''error'' spec_text \<or> str_in ''fail'' spec_text
         then (let recovery_keywords = [''retry'', ''rollback'', ''recover'', ''fallback'', ''compensate''];
                   has_recovery = any_in recovery_keywords spec_text
               in if \<not> has_recovery
                  then append_finding self
                    \<lparr>adversary = name self, severity = HIGH,
                     issue = ''No error recovery specified'',
                     details = ''Error conditions without recovery strategy'',
                     attack_vector = None,
                     misinterpretation = Some ''Crash or leave system in inconsistent state'',
                     suggested_defense = Some ''Specify recovery actions for each error scenario'',
                     location = None\<rparr>
                  else self)
         else self)"

subsection \<open>PerformanceAdversary\<close>

definition Performance_check_unbounded_operations :: "AdversaryAgent \<Rightarrow> pydict \<Rightarrow> AdversaryAgent" where
  "Performance_check_unbounded_operations self spec =
     (let spec_text = lower (py_str (PDict spec));
          self1 =
            (if str_in ''list'' spec_text \<or> str_in ''search'' spec_text \<or> str_in ''query'' spec_text
             then (if \<not> str_in ''limit'' spec_text \<and> \<not> str_in ''page'' spec_text
                      \<and> \<not> str_in ''pagination'' spec_text
                   then append_finding self
                     \<lparr>adversary = name self, severity = HIGH,
                      issue = ''Unbounded query results'',
                      details = ''List/search operation without result limits'',
                      attack_vector = Some ''Memory exhaustion with large result sets'',
                      misinterpretation = None,
                      suggested_defense = Some ''Add pagination or result limit requirements'',
                      location = None\<rparr>
                   else self)
             else self)
      in if str_in ''for each'' spec_text \<or> str_in ''iterate'' spec_text \<or> str_in ''process all'' spec_text
         then (if \<not> str_in ''timeout'' spec_text \<and> \<not> str_in ''limit'' spec_text
               then append_finding self1
                 \<lparr>adversary = name self1, severity = MEDIUM,
                  issue = ''Unbounded iteration'',
                  details = ''Iteration without limits or timeout'',
                  attack_vector = Some ''CPU exhaustion with large datasets'',
                  misinterpretation = None,
                  suggested_defense = Some ''Add iteration limits or processing timeouts'',
                  location = None\<rparr>
               else self1)
         else self1)"

definition Performance_check_resource_limits :: "AdversaryAgent \<Rightarrow> pydict \<Rightarrow> AdversaryAgent" where
  "Performance_check_resource_limits self spec =
     (let spec_text = lower (py_str (PDict spec));
          self1 =
            (if str_in ''upload'' spec_text \<or> str_in ''file'' spec_text
             then (if \<not> str_in ''size limit'' spec_text \<and> \<not> str_in ''max size'' spec_text
                   then append_finding self
                     \<lparr>adversary = name self, severity = HIGH,
                      issue = ''Unlimited file uploads'',
                      details = ''File handling without size restrictions'',
                      attack_vector = Some ''Disk space exhaustion'',
                      misinterpretation = None,
                      suggested_defense = Some ''Specify maximum file size and total storage limits'',
                      location = None\<rparr>
                   else self)
             else self)
      in if str_in ''api'' spec_text \<or> str_in ''endpoint'' spec_text
         then (if \<not> str_in ''rate limit'' spec_text \<and> \<not> str_in ''throttle'' spec_text
               then append_finding self1
                 \<lparr>adversary = name self1, severity = MEDIUM,
                  issue = ''No rate limiting specified'',
                  details = ''API endpoints without rate limits'',
                  attack_vector = Some ''DoS through request flooding'',
                  misinterpretation = None,
                  suggested_defense = Some ''Add rate limiting requirements per user/IP'',
                  location = None\<rparr>
               else self1)
         else self1)"

definition Performance_check_caching_needs :: "AdversaryAgent \<Rightarrow> pydict \<Rightarrow> AdversaryAgent" where
  "Performance_check_caching_needs self spec =
     (let spec_text = lower (py_str (PDict spec));
          expensive_keywords = [''calculate'', ''compute'', ''aggregate'', ''report'', ''analytics''];
          has_expensive = any_in expensive_keywords spec_text
      in if has_expensive \<and> \<not> str_in ''cache'' spec_text
         then append_finding self
           \<lparr>adversary = name self, severity = MEDIUM,
            issue = ''Expensive operations without caching'',
            details = ''Computational operations without cache strategy'',
            attack_vector = Some ''Performance degradation under load'',
            misinterpretation = None,
            suggested_defense = Some ''Specify caching requirements for expensive operations'',
            location = None\<rparr>
         else self)"

definition Performance_check_pagination :: "AdversaryAgent \<Rightarrow> pydict \<Rightarrow> AdversaryAgent" where
  "Performance_check_pagination self spec =
     (let spec_text = lower (py_str (PDict spec))
      in if str_in ''pagination'' spec_text \<or> str_in ''page'' spec_text
         then (if str_in ''offset'' spec_text \<and> str_in ''large'' spec_text
               then append_finding self
                 \<lparr>adversary = name self, severity = LOW,
                  issue = ''Offset pagination for large datasets'',
                  details = ''Offset-based pagination becomes slow with large offsets'',
                  attack_vector = Some ''Performance degradation on deep pages'',
                  misinterpretation = None,
                  suggested_defense = Some ''Consider cursor-based pagination for large datasets'',
                  location = None\<rparr>
               else self)
         else self)"

subsection \<open>ComplianceAdversary\<close>

text \<open>The table \<^verbatim>\<open>self.regulations\<close>, in insertion order.\<close>

definition regulations :: "(string \<times> string list) list" where
  "regulations =
     [(''GDPR'', [''personal data'', ''eu'', ''europe'', ''privacy'', ''consent'', ''right to be forgotten'']),
      (''PCI-DSS'', [''credit card'', ''payment card'', ''card number'', ''cvv'', ''payment'']),
      (''HIPAA'', [''health'', ''medical'', ''patient'', ''diagnosis'', ''prescription'']),
      (''SOC2'', [''security'', ''availability'', ''confidentiality'', ''privacy'']),
      (''CCPA'', [''california'', ''personal information'', ''consumer privacy''])]"

definition Compliance_check_data_retention :: "AdversaryAgent \<Rightarrow> pydict \<Rightarrow> AdversaryAgent" where
  "Compliance_check_data_retention self spec =
     (let spec_text = lower (py_str (PDict spec))
      in if list_ex (\<lambda>terms. list_ex (\<lambda>term. str_in term spec_text) terms) (map snd regulations)
         then (if \<not> str_in ''retention'' spec_text \<and> \<not> str_in ''delete'' spec_text
               then append_finding self
                 \<lparr>adversary = name self, severity = HIGH,
                  issue = ''Missing data retention policy'',
                  details = ''Personal data handled without retention/deletion policy'',
                  attack_vector = Some ''Compliance violations, legal liability'',
                  misinterpretation = None,
                  suggested_defense = Some ''Specify data retention periods and deletion procedures'',
                  location = None\<rparr>
               else self)
         else self)"

definition Compliance_check_audit_requirements :: "AdversaryAgent \<Rightarrow> pydict \<Rightarrow> AdversaryAgent" where
  "Compliance_check_audit_requirements self spec =
     (let spec_text = lower (py_str (PDict spec));
          audit_operations = [''delete'', ''modify'', ''access'', ''view'', ''export''];
          has_operations = any_in audit_operations spec_text
      in if has_operations \<and> \<not> str_in ''audit'' spec_text \<and> \<not> str_in ''log'' spec_text
         then append_finding self
           \<lparr>adversary = name self, severity = MEDIUM,
            issue = ''Missing audit trail requirements'',
            details = ''Sensitive operations without audit logging'',
            attack_vector = Some ''Unable to detect or investigate breaches'',
            misinterpretation = None,
            suggested_defense = Some ''Add audit logging for all data operations'',
            location = None\<rparr>
         else self)"

definition Compliance_check_consent_management :: "AdversaryAgent \<Rightarrow> pydict \<Rightarrow> AdversaryAgent" where
  "Compliance_check_consent_management self spec =
     (let spec_text = lower (py_str (PDict spec))
      in if str_in ''personal'' spec_text \<or> str_in ''user data'' spec_text
         then (if \<not> str_in ''consent'' spec_text
               then append_finding self
                 \<lparr>adversary = name self, severity = HIGH,
                  issue = ''No consent management'',
                  details = ''Personal data collection without consent mechanism'',
                  attack_vector = Some ''GDPR violations, fines'',
                  misinterpretation = None,
                  suggested_defense = Some ''Add explicit consent collection and management'',
                  location = None\<rparr>
               else self)
         else self)"

definition Compliance_check_data_portability :: "AdversaryAgent \<Rightarrow> pydict \<Rightarrow> AdversaryAgent" where
  "Compliance_check_data_portability self spec =
     (let spec_text = lower (py_str (PDict spec))
      in if str_in ''user'' spec_text \<and> str_in ''data'' spec_text
         then (if \<not> str_in ''export'' spec_text \<and> \<not> str_in ''download'' spec_text
               then append_finding self
                 \<lparr>adversary = name self, severity = MEDIUM,
                  issue = ''No data portability mechanism'',
                  details = ''User data without export functionality'',
                  attack_vector = Some ''GDPR Article 20 violation'',
                  misinterpretation = None,
                  suggested_defense = Some ''Add data export functionality in machine-readable format'',
                  location = None\<rparr>
               else self)
         else self)"

subsection \<open>The coroutines \<^verbatim>\<open>attack_spec\<close>\<close>

text \<open>
  An \<^verbatim>\<open>attack_spec\<close> coroutine resets \<^verbatim>\<open>self.findings\<close>, awaits its check methods
  one after the other and returns \<^verbatim>\<open>self.findings\<close>. It is modelled as the list of
  these steps; an adversary is its object together with its coroutine.
\<close>

type_synonym check = "AdversaryAgent \<Rightarrow> pydict \<Rightarrow> py_error + AdversaryAgent"

type_synonym adversary_task = "AdversaryAgent \<times> check list"

definition reset_findings :: check where
  "reset_findings self spec = Inr (self\<lparr>findings := []\<rparr>)"

definition await_check :: "(AdversaryAgent \<Rightarrow> pydict \<Rightarrow> AdversaryAgent) \<Rightarrow> check" where
  "await_check c self spec = Inr (c self spec)"

definition SecurityAdversary :: adversary_task where
  "SecurityAdversary =
     (\<lparr>name = ''Security Adversary'', findings = []\<rparr>,
      [reset_findings,
       await_check Security_check_authentication,
       await_check Security_check_authorization,
       await_check Security_check_data_protection,
       await_check Security_check_injection_risks,
       await_check Security_check_validation])"

definition AmbiguityAdversary :: adversary_task where
  "AmbiguityAdversary =
     (\<lparr>name = ''Ambiguity Adversary'', findings = []\<rparr>,
      [reset_findings,
       Ambiguity_check_requirements,
       await_check Ambiguity_check_boundaries,
       await_check Ambiguity_check_error_handling])"

definition ImplementationAdversary :: adversary_task where
  "ImplementationAdversary =
     (\<lparr>name = ''Implementation Adversary'', findings = []\<rparr>,
      [reset_findings,
       await_check Implementation_check_edge_cases,
       await_check Implementation_check_race_conditions,
       await_check Implementation_check_state_management,
       await_check Implementation_check_error_recovery])"

definition PerformanceAdversary :: adversary_task where
  "PerformanceAdversary =
     (\<lparr>name = ''Performance Adversary'', findings = []\<rparr>,
      [reset_findings,
       await_check Performance_check_unbounded_operations,
       await_check Performance_check_resource_limits,
       await_check Performance_check_caching_needs,
       await_check Performance_check_pagination])"

definition ComplianceAdversary :: adversary_task where
  "ComplianceAdversary =
     (\<lparr>name = ''Compliance Adversary'', findings = []\<rparr>,
      [reset_findings,
       await_check Compliance_check_data_retention,
       await_check Compliance_check_audit_requirements,
       await_check Compliance_check_consent_management,
       await_check Compliance_check_data_portability])"

text \<open>Running a coroutine to its end without interruption.\<close>

fun run_checks :: "check list \<Rightarrow> AdversaryAgent \<Rightarrow> pydict \<Rightarrow> py_error + AdversaryAgent" where
  "run_checks [] self spec = Inr self"
| "run_checks (c # cs) self spec =
     (case c self spec of Inl e \<Rightarrow> Inl e | Inr self' \<Rightarrow> run_checks cs self' spec)"

definition attack_spec :: "adversary_task \<Rightarrow> pydict \<Rightarrow> py_error + AdversarialFinding list" where
  "attack_spec a spec =
     (case run_checks (snd a) (fst a) spec of Inl e \<Rightarrow> Inl e | Inr self \<Rightarrow> Inr (findings self))"

subsection \<open>AdversarialReviewOrchestrator\<close>

text \<open>\<^verbatim>\<open>self.adversaries\<close>, as \<^verbatim>\<open>__init__\<close> registers them.\<close>

definition adversaries :: "adversary_task list" where
  "adversaries =
     [SecurityAdversary, AmbiguityAdversary, ImplementationAdversary,
      PerformanceAdversary, ComplianceAdversary]"

text \<open>
  \<^verbatim>\<open>asyncio.gather\<close> runs the coroutines as tasks of one event loop and returns their
  results in the order of its arguments. The event loop's choices are a schedule: a list
  of task indices, each entry letting that task run its next step. A step that raises
  ends the gather with that exception. A schedule that stops while a task still has steps
  to run is no run of the event loop (\<open>None\<close>).
\<close>

fun step_task :: "adversary_task \<Rightarrow> pydict \<Rightarrow> py_error + adversary_task" where
  "step_task (self, []) spec = Inr (self, [])"
| "step_task (self, c # cs) spec =
     (case c self spec of Inl e \<Rightarrow> Inl e | Inr self' \<Rightarrow> Inr (self', cs))"

fun run_schedule :: "nat list \<Rightarrow> adversary_task list \<Rightarrow> pydict \<Rightarrow> py_error + adversary_task list" where
  "run_schedule [] ts spec = Inr ts"
| "run_schedule (i # sched) ts spec =
     (if i < length ts
      then (case step_task (ts ! i) spec of
              Inl e \<Rightarrow> Inl e
            | Inr t \<Rightarrow> run_schedule sched (ts[i := t]) spec)
      else run_schedule sched ts spec)"

fun finished :: "adversary_task \<Rightarrow> bool" where
  "finished (self, []) = True"
| "finished (self, c # cs) = False"

definition gather ::
  "nat list \<Rightarrow> adversary_task list \<Rightarrow> pydict \<Rightarrow> (py_error + AdversarialFinding list list) option" where
  "gather sched advs spec =
     (case run_schedule sched advs spec of
        Inl e \<Rightarrow> Some (Inl e)
      | Inr ts \<Rightarrow>
          if list_all finished ts
          then Some (Inr (map (\<lambda>t. findings (fst t)) ts))
          else None)"

text \<open>\<^verbatim>\<open>d[k] = v\<close> on a dictionary kept in insertion order.\<close>

fun dict_set :: "('k \<times> 'v) list \<Rightarrow> 'k \<Rightarrow> 'v \<Rightarrow> ('k \<times> 'v) list" where
  "dict_set [] k v = [(k, v)]"
| "dict_set ((k', v') # d) k v = (if k' = k then (k, v) # d else (k', v') # dict_set d k v)"

text \<open>
  The loop \<^verbatim>\<open>for adversary, findings in zip(self.adversaries, findings_lists)\<close> over
  the state \<^verbatim>\<open>(findings_by_adversary, all_findings, critical_count)\<close>.
\<close>

fun organize_findings ::
  "(adversary_task \<times> AdversarialFinding list) list \<Rightarrow>
   (string \<times> AdversarialFinding list) list \<times> AdversarialFinding list \<times> nat \<Rightarrow>
   (string \<times> AdversarialFinding list) list \<times> AdversarialFinding list \<times> nat" where
  "organize_findings [] st = st"
| "organize_findings ((a, fs) # rest) (by_adversary, all_findings, critical_count) =
     organize_findings rest
       (dict_set by_adversary (name (fst a)) fs,
        all_findings @ fs,
        critical_count + length (filter (\<lambda>f. severity f = CRITICAL) fs))"

fun generate_defenses :: "AdversarialFinding list \<Rightarrow> (string \<times> string) list list" where
  "generate_defenses [] = []"
| "generate_defenses (f # fs) =
     (case suggested_defense f of
        None \<Rightarrow> generate_defenses fs
      | Some d \<Rightarrow>
          if d = [] then generate_defenses fs
          else [(''issue'', issue f), (''change'', d), (''severity'', severity_value (severity f))]
               # generate_defenses fs)"

text \<open>Lines 722 to 750 of \<^verbatim>\<open>run_review\<close>: everything after the gather.\<close>

definition build_report :: "pydict \<Rightarrow> AdversarialFinding list list \<Rightarrow> py_error + AdversarialReport" where
  "build_report spec findings_lists =
     (case organize_findings (zip adversaries findings_lists) ([], [], 0) of
        (by_adversary, all_findings, critical_count) \<Rightarrow>
          (let status =
                 (if critical_count > 0 then ''BLOCKED - Critical findings must be addressed''
                  else if length all_findings > 10 then ''NEEDS_REVIEW - Too many findings''
                  else if length all_findings > 0
                       then ''CONDITIONAL - Address findings before implementation''
                  else ''APPROVED - No significant issues found'')
           in case metadata_name spec of
                Inl e \<Rightarrow> Inl e
              | Inr n \<Rightarrow>
                  Inr \<lparr>spec_name = n,
                       total_findings = length all_findings,
                       critical_findings = critical_count,
                       findings_by_adversary = by_adversary,
                       defended_spec_changes = generate_defenses all_findings,
                       approval_status = status,
                       human_review_required = (critical_count > 0 \<or> length all_findings > 5)\<rparr>))"

text \<open>
  \<^verbatim>\<open>run_review\<close> on the loaded document, under a schedule of the event loop.
\<close>

definition run_review :: "nat list \<Rightarrow> pydict \<Rightarrow> (py_error + AdversarialReport) option" where
  "run_review sched spec =
     (case gather sched adversaries spec of
        None \<Rightarrow> None
      | Some (Inl e) \<Rightarrow> Some (Inl e)
      | Some (Inr findings_lists) \<Rightarrow> Some (build_report spec findings_lists))"

text \<open>
  The schedule that lets each task run to its end before the next one starts, in
  registration order: what the event loop does with coroutines that never suspend.
\<close>

definition registration_schedule :: "adversary_task list \<Rightarrow> nat list" where
  "registration_schedule advs =
     concat (map (\<lambda>ia. replicate (length (snd (snd ia))) (fst ia)) (enumerate 0 advs))"

text \<open>
  The tasks after each coroutine has run to its end, and the review in which the
  adversaries attack one after the other in registration order: the results every
  schedule is compared with.
\<close>

fun finish_all :: "adversary_task list \<Rightarrow> pydict \<Rightarrow> py_error + adversary_task list" where
  "finish_all [] spec = Inr []"
| "finish_all (t # ts) spec =
     (case run_checks (snd t) (fst t) spec of
        Inl e \<Rightarrow> Inl e
      | Inr self' \<Rightarrow>
          (case finish_all ts spec of Inl e \<Rightarrow> Inl e | Inr ts' \<Rightarrow> Inr ((self', []) # ts')))"

fun attack_all :: "adversary_task list \<Rightarrow> pydict \<Rightarrow> py_error + AdversarialFinding list list" where
  "attack_all [] spec = Inr []"
| "attack_all (a # rest) spec =
     (case attack_spec a spec of
        Inl e \<Rightarrow> Inl e
      | Inr fs \<Rightarrow> (case attack_all rest spec of Inl e \<Rightarrow> Inl e | Inr fss \<Rightarrow> Inr (fs # fss)))"

definition review_in_order :: "pydict \<Rightarrow> py_error + AdversarialReport" where
  "review_in_order spec =
     (case attack_all adversaries spec of
        Inl e \<Rightarrow> Inl e
      | Inr findings_lists \<Rightarrow> build_report spec findings_lists)"

section \<open>Validation gates (src/validation/gates.py)\<close>

datatype ValidationLevel = SYNTAX | SEMANTIC | COVERAGE | CROSS_REFERENCE

record ValidationResult =
  passed :: bool
  level :: ValidationLevel
  errors :: "string list"
  warnings :: "string list"
  suggestions :: "string list"
  ready_for_adversarial :: bool

text \<open>
  The two attributes of \<^verbatim>\<open>self.spec_path\<close> the validator reads (\<^verbatim>\<open>Path.name\<close> and
  \<^verbatim>\<open>Path.suffix\<close>), and the validator object. Its list \<^verbatim>\<open>self.findings\<close> is never
  read or written after \<^verbatim>\<open>__init__\<close> and is left out. The documents
  \<^verbatim>\<open>_load_existing_specs\<close> reads from the directory are an argument of the fourth gate:
  each is whatever \<^verbatim>\<open>yaml.safe_load\<close> returned.
\<close>

record Path =
  path_name :: string
  suffix :: string

record DefenseInDepthValidator =
  spec_path :: Path
  spec :: pydict
  current_level :: ValidationLevel

subsection \<open>The regular expressions\<close>

text \<open>The class \<^verbatim>\<open>\s\<close> of a Unicode pattern, on code points below 256.\<close>

definition is_space_char :: "char \<Rightarrow> bool" where
  "is_space_char c =
     (let n = (of_char c :: nat)
      in (9 \<le> n \<and> n \<le> 13) \<or> (28 \<le> n \<and> n \<le> 32) \<or> n = 133 \<or> n = 160)"

definition is_AZ :: "char \<Rightarrow> bool" where
  "is_AZ c = (let n = (of_char c :: nat) in 65 \<le> n \<and> n \<le> 90)"

definition is_az :: "char \<Rightarrow> bool" where
  "is_az c = (let n = (of_char c :: nat) in 97 \<le> n \<and> n \<le> 122)"

text \<open>
  \<^verbatim>\<open>(GET|POST|PUT|DELETE|PATCH)\s+/[\w/]+\<close> matched at the start of a text with one
  alternative: the method, the longest run of white space (at least one character; the
  slash that must follow is no white space, so no shorter run can match), a slash, and the
  longest run of word characters and slashes (at least one). The result is the length of
  the match.
\<close>

definition match_endpoint_with :: "string \<Rightarrow> string \<Rightarrow> nat option" where
  "match_endpoint_with text m =
     (if startswith text m
      then (let rest = drop (length m) text;
                ws = takeWhile is_space_char rest
            in if ws = [] then None
               else (case drop (length ws) rest of
                       [] \<Rightarrow> None
                     | c # rest' \<Rightarrow>
                         if c = CHR ''/''
                         then (let path = takeWhile (\<lambda>c. is_word_char c \<or> c = CHR ''/'') rest'
                               in if path = [] then None
                                  else Some (length m + length ws + 1 + length path))
                         else None))
      else None)"

text \<open>The first alternative that matches, with the text of group 1 (the method).\<close>

fun match_endpoint :: "string list \<Rightarrow> string \<Rightarrow> (string \<times> nat) option" where
  "match_endpoint [] text = None"
| "match_endpoint (m # ms) text =
     (case match_endpoint_with text m of
        Some n \<Rightarrow> Some (m, n)
      | None \<Rightarrow> match_endpoint ms text)"

text \<open>
  \<^verbatim>\<open>re.findall\<close> of that pattern: the matches from left to right, none overlapping
  another; since the pattern has one group, \<^verbatim>\<open>findall\<close> returns the text of the group,
  not of the match. \<open>skip\<close> counts the characters of the last match still to pass.
\<close>

fun findall_endpoints :: "nat \<Rightarrow> string \<Rightarrow> string list" where
  "findall_endpoints skip [] = []"
| "findall_endpoints (Suc skip) (c # cs) = findall_endpoints skip cs"
| "findall_endpoints 0 (c # cs) =
     (case match_endpoint [''GET'', ''POST'', ''PUT'', ''DELETE'', ''PATCH''] (c # cs) of
        Some (m, n) \<Rightarrow> m # findall_endpoints (n - 1) cs
      | None \<Rightarrow> findall_endpoints 0 cs)"

text \<open>
  \<^verbatim>\<open>re.findall(r'[A-Z]{2,}', text)\<close>: the maximal runs of capital letters of length at
  least two. \<open>run\<close> is the run read so far.
\<close>

fun findall_acronyms :: "string \<Rightarrow> string \<Rightarrow> string list" where
  "findall_acronyms run [] = (if 2 \<le> length run then [run] else [])"
| "findall_acronyms run (c # cs) =
     (if is_AZ c then findall_acronyms (run @ [c]) cs
      else (if 2 \<le> length run then [run] else []) @ findall_acronyms [] cs)"

text \<open>
  \<^verbatim>\<open>\w+LIT\<close> matched at the start of a text: \<^verbatim>\<open>\w+\<close> takes a word character
  and, being greedy, first tries to take more; when no longer run leads to a match it
  stops after this character, where \<open>LIT\<close> must follow. The result is the length of the
  match.
\<close>

fun match_word_then :: "string \<Rightarrow> string \<Rightarrow> nat option" where
  "match_word_then lit [] = None"
| "match_word_then lit (c # cs) =
     (if is_word_char c
      then (case match_word_then lit cs of
              Some n \<Rightarrow> Some (Suc n)
            | None \<Rightarrow> if startswith cs lit then Some (Suc (length lit)) else None)
      else None)"

fun findall_word_then :: "string \<Rightarrow> nat \<Rightarrow> string \<Rightarrow> string list" where
  "findall_word_then lit skip [] = []"
| "findall_word_then lit (Suc skip) (c # cs) = findall_word_then lit skip cs"
| "findall_word_then lit 0 (c # cs) =
     (case match_word_then lit (c # cs) of
        Some n \<Rightarrow> take n (c # cs) # findall_word_then lit (n - 1) cs
      | None \<Rightarrow> findall_word_then lit 0 cs)"

text \<open>
  \<^verbatim>\<open>re.findall(r'\b[a-z]+\b', text)\<close>: a match starts where a run of word characters
  starts and must end where it ends, so the matches are the maximal runs of word
  characters that consist of the letters a to z only. \<open>word_runs\<close> lists the maximal
  runs of word characters; \<open>run\<close> is the run read so far.
\<close>

fun word_runs :: "string \<Rightarrow> string \<Rightarrow> string list" where
  "word_runs run [] = (if run = [] then [] else [run])"
| "word_runs run (c # cs) =
     (if is_word_char c then word_runs (run @ [c]) cs
      else (if run = [] then [] else [run]) @ word_runs [] cs)"

definition findall_lower_words :: "string \<Rightarrow> string list" where
  "findall_lower_words text = filter (list_all is_az) (word_runs [] text)"

subsection \<open>Helper methods\<close>

text \<open>
  \<^verbatim>\<open>list(set(xs))\<close>: the elements of \<open>xs\<close> once each. Python leaves the order of a set
  of strings open (it changes from one process to the next); the model takes the order of
  \<open>remdups\<close>, and nothing below depends on it.
\<close>

definition list_of_set :: "string list \<Rightarrow> string list" where
  "list_of_set xs = remdups xs"

definition extract_keywords :: "pyval list \<Rightarrow> string list" where
  "extract_keywords stories =
     list_of_set (concat (map (\<lambda>story.
        filter (\<lambda>w. length w > 3) (findall_lower_words (lower (py_str story)))) stories))"

definition requirements_conflict :: "pyval \<Rightarrow> pyval \<Rightarrow> bool" where
  "requirements_conflict req1 req2 =
     (let req1_text = py_str req1;
          req2_text = py_str req2;
          contradictions =
            [(''must'', ''must not''), (''always'', ''never''),
             (''required'', ''optional''), (''synchronous'', ''asynchronous'')]
      in list_ex (\<lambda>ww.
           str_in (fst ww) (lower req1_text) \<and> str_in (snd ww) (lower req2_text)
           \<and> list_ex (\<lambda>term. str_in term (lower req1_text) \<and> str_in term (lower req2_text))
                [''same'', ''identical'', ''equal'']) contradictions)"

definition find_technical_terms :: "DefenseInDepthValidator \<Rightarrow> string list" where
  "find_technical_terms self =
     (let spec_text = py_str (PDict (spec self))
      in list_of_set (findall_acronyms [] spec_text
                      @ findall_word_then ''API'' 0 spec_text
                      @ findall_word_then ''Protocol'' 0 spec_text))"

text \<open>
  \<^verbatim>\<open>_is_complex_spec\<close>. The list of indicators is built from left to right, and
  \<^verbatim>\<open>len\<close> of the section raises for a value that has no length.
\<close>

definition is_complex_spec :: "DefenseInDepthValidator \<Rightarrow> py_error + bool" where
  "is_complex_spec self =
     (let spec_text = lower (py_str (PDict (spec self)))
      in case py_len (dict_get (spec self) ''functional_requirements'' (PList [])) of
           Inl e \<Rightarrow> Inl e
         | Inr n \<Rightarrow>
             (let complexity_indicators =
                    [str_in ''database'' spec_text,
                     str_in ''migration'' spec_text,
                     str_in ''payment'' spec_text,
                     n > 10,
                     str_in ''distributed'' spec_text]
              in Inr (length (filter (\<lambda>b. b) complexity_indicators) \<ge> 2)))"

definition extract_apis :: "pyval \<Rightarrow> string list" where
  "extract_apis d = findall_endpoints 0 (py_str d)"

text \<open>
  \<^verbatim>\<open>other_spec.get('metadata', {}).get('name', 'unknown')\<close> for a sibling document, which
  need not be a dictionary.
\<close>

definition sibling_name :: "pyval \<Rightarrow> py_error + pyval" where
  "sibling_name other_spec =
     (case other_spec of PDict d \<Rightarrow> metadata_name d | _ \<Rightarrow> Inl AttributeError)"

text \<open>
  The loop \<^verbatim>\<open>for api in current_apis\<close> of \<^verbatim>\<open>_check_spec_conflicts\<close> for one sibling:
  the conflicts it appends, as pairs of the entries \<^verbatim>\<open>'spec'\<close> and \<^verbatim>\<open>'issue'\<close>.
\<close>

fun conflicts_with :: "pyval \<Rightarrow> string list \<Rightarrow> string list \<Rightarrow> py_error + (pyval \<times> string) list" where
  "conflicts_with other_spec other_apis [] = Inr []"
| "conflicts_with other_spec other_apis (api # apis) =
     (if api \<in> set other_apis
      then (case sibling_name other_spec of
              Inl e \<Rightarrow> Inl e
            | Inr n \<Rightarrow>
                (case conflicts_with other_spec other_apis apis of
                   Inl e \<Rightarrow> Inl e
                 | Inr cs \<Rightarrow> Inr ((n, ''Duplicate API endpoint: '' @ api) # cs)))
      else conflicts_with other_spec other_apis apis)"

text \<open>The loop \<^verbatim>\<open>for other_spec in existing_specs\<close>.\<close>

fun check_conflicts_loop :: "string list \<Rightarrow> pyval list \<Rightarrow> py_error + (pyval \<times> string) list" where
  "check_conflicts_loop current_apis [] = Inr []"
| "check_conflicts_loop current_apis (other_spec # others) =
     (case conflicts_with other_spec (extract_apis other_spec) current_apis of
        Inl e \<Rightarrow> Inl e
      | Inr cs \<Rightarrow>
          (case check_conflicts_loop current_apis others of
             Inl e \<Rightarrow> Inl e
           | Inr cs' \<Rightarrow> Inr (cs @ cs')))"

definition check_spec_conflicts ::
  "DefenseInDepthValidator \<Rightarrow> pyval list \<Rightarrow> py_error + (pyval \<times> string) list" where
  "check_spec_conflicts self existing_specs =
     check_conflicts_loop (extract_apis (PDict (spec self))) existing_specs"

definition is_update_to_existing :: "DefenseInDepthValidator \<Rightarrow> bool" where
  "is_update_to_existing self =
     (let update_indicators =
            [str_in ''update'' (lower (path_name (spec_path self))),
             str_in ''v2'' (lower (path_name (spec_path self))),
             str_in ''migration'' (lower (py_str (PDict (spec self)))),
             str_in ''deprecate'' (lower (py_str (PDict (spec self))))]
      in list_ex (\<lambda>b. b) update_indicators)"

subsection \<open>Level 1: syntax\<close>

text \<open>\<^verbatim>\<open>section not in self.spec or not self.spec[section]\<close>.\<close>

definition section_missing :: "pydict \<Rightarrow> string \<Rightarrow> bool" where
  "section_missing d k = (case map_of d k of None \<Rightarrow> True | Some v \<Rightarrow> \<not> truthy v)"

text \<open>
  The loop \<^verbatim>\<open>for i, req in enumerate(self.spec['functional_requirements'])\<close>: the
  warnings it appends; \<open>i\<close> is the index of the first item.
\<close>

fun requirement_id_warnings :: "nat \<Rightarrow> pyval list \<Rightarrow> string list" where
  "requirement_id_warnings i [] = []"
| "requirement_id_warnings i (req # reqs) =
     (case req of
        PStr s \<Rightarrow>
          if \<not> startswith s ''FR-''
          then [''Requirement '' @ str_of_nat (i + 1) @ '' should have ID format '' @ apos @ ''FR-X'' @ apos]
          else []
      | _ \<Rightarrow> [])
     @ requirement_id_warnings (Suc i) reqs"

text \<open>\<^verbatim>\<open>isinstance(value, list) and len(value) == 0\<close>.\<close>

definition is_empty_list :: "pyval \<Rightarrow> bool" where
  "is_empty_list v = (case v of PList xs \<Rightarrow> xs = [] | _ \<Rightarrow> False)"

definition validate_level_1_syntax :: "DefenseInDepthValidator \<Rightarrow> py_error + ValidationResult" where
  "validate_level_1_syntax self =
     (let required_sections = [''user_stories'', ''functional_requirements'', ''acceptance_criteria''];
          errs = map (\<lambda>section. ''Missing required section: '' @ section)
                   (filter (section_missing (spec self)) required_sections)
      in case (case map_of (spec self) ''functional_requirements'' of
                 None \<Rightarrow> Inr []
               | Some v \<Rightarrow>
                   (case py_iter v of
                      Inl e \<Rightarrow> Inl e
                    | Inr reqs \<Rightarrow> Inr (requirement_id_warnings 0 reqs))) of
           Inl e \<Rightarrow> Inl e
         | Inr id_warnings \<Rightarrow>
             (let warns =
                    id_warnings
                    @ map (\<lambda>kv. ''Empty section: '' @ fst kv)
                        (filter (\<lambda>kv. is_empty_list (snd kv)) (spec self))
                    @ (if suffix (spec_path self) = ''.yaml''
                       then (if \<not> has_key (spec self) ''apiVersion''
                             then [''Missing apiVersion field''] else [])
                            @ (if \<not> has_key (spec self) ''metadata''
                               then [''Missing metadata section''] else [])
                       else [])
              in Inr \<lparr>passed = (length errs = 0),
                      level = SYNTAX,
                      errors = errs,
                      warnings = warns,
                      suggestions =
                        (if warns \<noteq> []
                         then [''Consider using the formal YAML template for better structure'']
                         else []),
                      ready_for_adversarial = False\<rparr>))"

subsection \<open>Level 2: semantic\<close>

text \<open>The loop \<^verbatim>\<open>for req in self.spec['functional_requirements']\<close> of the tracing check.\<close>

definition trace_warnings :: "string list \<Rightarrow> pyval list \<Rightarrow> string list" where
  "trace_warnings story_keywords reqs =
     concat (map (\<lambda>req.
        (let req_text = py_str req
         in if \<not> list_ex (\<lambda>keyword. str_in keyword (lower req_text)) story_keywords
            then [''Requirement '' @ apos @ take 50 req_text @ ''...'' @ apos
                  @ '' may not trace to user stories'']
            else [])) reqs)"

text \<open>
  The two loops over \<^verbatim>\<open>enumerate(requirements)\<close> and
  \<^verbatim>\<open>enumerate(requirements[i+1:], i+1)\<close>: \<open>i\<close> and \<open>j\<close> are the indices of the
  first items.
\<close>

fun conflicts_from :: "nat \<Rightarrow> nat \<Rightarrow> pyval \<Rightarrow> pyval list \<Rightarrow> string list" where
  "conflicts_from i j req1 [] = []"
| "conflicts_from i j req1 (req2 # rest) =
     (if requirements_conflict req1 req2
      then [''Potential conflict between requirements '' @ str_of_nat (i + 1)
            @ '' and '' @ str_of_nat (j + 1)]
      else [])
     @ conflicts_from i (Suc j) req1 rest"

fun pair_conflicts :: "nat \<Rightarrow> pyval list \<Rightarrow> string list" where
  "pair_conflicts i [] = []"
| "pair_conflicts i (req1 # rest) = conflicts_from i (i + 1) req1 rest @ pair_conflicts (Suc i) rest"

text \<open>
  What the loops do with the value of the section: a list or a string is iterated and
  sliced; a dictionary with a key cannot be sliced (\<^verbatim>\<open>TypeError\<close> up to Python 3.11,
  \<^verbatim>\<open>KeyError\<close> from 3.12 on; the model says \<^verbatim>\<open>TypeError\<close>).
\<close>

definition conflict_errors :: "pyval \<Rightarrow> py_error + string list" where
  "conflict_errors requirements =
     (case requirements of
        PDict kvs \<Rightarrow> if kvs = [] then Inr [] else Inl TypeError
      | _ \<Rightarrow> (case py_iter requirements of
                Inl e \<Rightarrow> Inl e
              | Inr reqs \<Rightarrow> Inr (pair_conflicts 0 reqs)))"

text \<open>\<^verbatim>\<open>term in defined_terms\<close> for a string \<open>term\<close>.\<close>

fun py_contains :: "pyval \<Rightarrow> string \<Rightarrow> py_error + bool" where
  "py_contains (PDict d) t = Inr (has_key d t)"
| "py_contains (PList xs) t = Inr (PStr t \<in> set xs)"
| "py_contains (PStr s) t = Inr (str_in t s)"
| "py_contains v t = Inl TypeError"

text \<open>The loop \<^verbatim>\<open>for term in technical_terms\<close>: the terms that are not defined.\<close>

fun undefined_terms :: "pyval \<Rightarrow> string list \<Rightarrow> py_error + string list" where
  "undefined_terms defined_terms [] = Inr []"
| "undefined_terms defined_terms (term # rest) =
     (case py_contains defined_terms term of
        Inl e \<Rightarrow> Inl e
      | Inr b \<Rightarrow>
          (case undefined_terms defined_terms rest of
             Inl e \<Rightarrow> Inl e
           | Inr ts \<Rightarrow> Inr ((if b then [] else [term]) @ ts)))"

definition validate_level_2_semantic :: "DefenseInDepthValidator \<Rightarrow> py_error + ValidationResult" where
  "validate_level_2_semantic self =
     (case (case (map_of (spec self) ''user_stories'', map_of (spec self) ''functional_requirements'') of
              (Some us, Some frs) \<Rightarrow>
                (case py_iter us of
                   Inl e \<Rightarrow> Inl e
                 | Inr stories \<Rightarrow>
                     (case py_iter frs of
                        Inl e \<Rightarrow> Inl e
                      | Inr reqs \<Rightarrow> Inr (trace_warnings (extract_keywords stories) reqs)))
            | _ \<Rightarrow> Inr []) of
        Inl e \<Rightarrow> Inl e
      | Inr trace \<Rightarrow>
          (case conflict_errors (dict_get (spec self) ''functional_requirements'' (PList [])) of
             Inl e \<Rightarrow> Inl e
           | Inr conflicts \<Rightarrow>
               (case undefined_terms (dict_get (spec self) ''definitions'' (PDict []))
                       (find_technical_terms self) of
                  Inl e \<Rightarrow> Inl e
                | Inr undefined_ts \<Rightarrow>
                    (let sensitive_keywords =
                           [''payment'', ''password'', ''auth'', ''credit'', ''personal'', ''private''];
                         has_sensitive = any_in sensitive_keywords (lower (py_str (PDict (spec self))));
                         lacks_security = (has_sensitive \<and> \<not> has_key (spec self) ''security_requirements'');
                         errs = conflicts
                                @ (if lacks_security
                                   then [''Spec involves sensitive operations but lacks security requirements'']
                                   else []);
                         warns = trace
                                 @ map (\<lambda>term. ''Technical term '' @ apos @ term @ apos @ '' is not defined'')
                                     undefined_ts;
                         suggs = map (\<lambda>term. ''Add definition for '' @ apos @ term @ apos
                                              @ '' in definitions section'') undefined_ts
                                 @ (if lacks_security
                                    then [''Add security_requirements section with authentication, authorization, and encryption details'']
                                    else [])
                     in Inr \<lparr>passed = (length errs = 0),
                             level = SEMANTIC,
                             errors = errs,
                             warnings = warns,
                             suggestions = suggs,
                             ready_for_adversarial = False\<rparr>))))"

subsection \<open>Level 3: coverage\<close>

text \<open>
  The loop \<^verbatim>\<open>for story in user_stories\<close>; \<^verbatim>\<open>acceptance_criteria\<close> is iterated
  inside it, so its value matters only when there is a story.
\<close>

definition story_warnings :: "pyval \<Rightarrow> pyval \<Rightarrow> py_error + string list" where
  "story_warnings user_stories acceptance_criteria =
     (case py_iter user_stories of
        Inl e \<Rightarrow> Inl e
      | Inr stories \<Rightarrow>
          if stories = [] then Inr []
          else (case py_iter acceptance_criteria of
                  Inl e \<Rightarrow> Inl e
                | Inr criteria_list \<Rightarrow>
                    Inr (concat (map (\<lambda>story.
                      (let story_text = py_str story
                       in if \<not> list_ex (\<lambda>criteria.
                                  str_in (lower story_text) (lower (py_str criteria))) criteria_list
                          then [''User story may lack acceptance criteria: ''
                                @ take 50 story_text @ ''...'']
                          else [])) stories))))"

definition validate_level_3_coverage :: "DefenseInDepthValidator \<Rightarrow> py_error + ValidationResult" where
  "validate_level_3_coverage self =
     (case story_warnings (dict_get (spec self) ''user_stories'' (PList []))
             (dict_get (spec self) ''acceptance_criteria'' (PList [])) of
        Inl e \<Rightarrow> Inl e
      | Inr story_warns \<Rightarrow>
          (case is_complex_spec self of
             Inl e \<Rightarrow> Inl e
           | Inr is_complex \<Rightarrow>
               (let spec_text = lower (py_str (PDict (spec self)));
                    error_keywords = [''error'', ''fail'', ''invalid'', ''exception'', ''timeout''];
                    has_error_handling = any_in error_keywords spec_text;
                    no_performance =
                      (case map_of (spec self) ''non_functional_requirements'' of
                         None \<Rightarrow> False
                       | Some v \<Rightarrow>
                           (let nfrs = lower (py_str v)
                            in \<not> str_in ''performance'' nfrs \<and> \<not> str_in ''response time'' nfrs
                               \<and> \<not> str_in ''latency'' nfrs));
                    resource_keywords = [''memory'', ''cpu'', ''disk'', ''bandwidth'', ''connection''];
                    has_resource_limits = any_in resource_keywords spec_text;
                    lacks_rollback = (is_complex \<and> \<not> str_in ''rollback'' spec_text);
                    errs = (if \<not> has_error_handling
                            then [''No error conditions or failure scenarios defined''] else [])
                           @ (if lacks_rollback
                              then [''Complex spec lacks rollback procedures''] else []);
                    warns = story_warns
                            @ (if no_performance then [''No performance requirements specified''] else [])
                            @ (if \<not> has_resource_limits then [''No resource limits specified''] else []);
                    suggs = (if \<not> has_error_handling
                             then [''Add error handling requirements for each major operation''] else [])
                            @ (if no_performance
                               then [''Add performance bounds (response time, throughput, etc.)''] else [])
                            @ (if \<not> has_resource_limits
                               then [''Define resource constraints and limits''] else [])
                            @ (if lacks_rollback
                               then [''Add rollback and recovery procedures''] else [])
                in Inr \<lparr>passed = (length errs = 0),
                        level = COVERAGE,
                        errors = errs,
                        warnings = warns,
                        suggestions = suggs,
                        ready_for_adversarial = False\<rparr>)))"

subsection \<open>Level 4: cross-reference\<close>

definition validate_level_4_cross_reference ::
  "DefenseInDepthValidator \<Rightarrow> pyval list \<Rightarrow> py_error + ValidationResult" where
  "validate_level_4_cross_reference self existing_specs =
     (case check_spec_conflicts self existing_specs of
        Inl e \<Rightarrow> Inl e
      | Inr conflicts \<Rightarrow>
          (let undefined_interfaces =
                 ((has_key (spec self) ''interfaces''
                   \<or> str_in ''api'' (lower (py_str (PDict (spec self)))))
                  \<and> \<not> has_key (spec self) ''api_contracts''
                  \<and> \<not> has_key (spec self) ''interface_definitions'');
               no_dependencies = (\<not> has_key (spec self) ''dependencies'');
               no_compatibility =
                 (is_update_to_existing self
                  \<and> \<not> has_key (spec self) ''backwards_compatibility''
                  \<and> \<not> has_key (spec self) ''breaking_changes'');
               errs = map (\<lambda>conflict. ''Conflict with '' @ py_str (fst conflict) @ '': '' @ snd conflict)
                        conflicts
                      @ (if undefined_interfaces
                         then [''Spec mentions interfaces/APIs but lacks proper definitions''] else [])
                      @ (if no_compatibility
                         then [''Update to existing system lacks backwards compatibility analysis'']
                         else []);
               warns = (if no_dependencies then [''No explicit dependencies stated''] else []);
               suggs = (if undefined_interfaces
                        then [''Add api_contracts or interface_definitions section''] else [])
                       @ (if no_dependencies
                          then [''Add dependencies section listing all external systems and libraries'']
                          else [])
                       @ (if no_compatibility
                          then [''Add backwards_compatibility section or explicitly list breaking_changes'']
                          else [])
           in Inr \<lparr>passed = (length errs = 0),
                   level = CROSS_REFERENCE,
                   errors = errs,
                   warnings = warns,
                   suggestions = suggs,
                   ready_for_adversarial = (length errs = 0)\<rparr>))"

subsection \<open>The runner\<close>

text \<open>
  The loop \<^verbatim>\<open>for level, validator in validators\<close> of
  \<^verbatim>\<open>run_progressive_validation\<close> over the validator object and the dictionary
  \<^verbatim>\<open>results\<close> (in insertion order): it returns both.
\<close>

type_synonym validator = "DefenseInDepthValidator \<Rightarrow> py_error + ValidationResult"

fun run_validators ::
  "(ValidationLevel \<times> validator) list \<Rightarrow> DefenseInDepthValidator \<Rightarrow>
   (ValidationLevel \<times> ValidationResult) list \<Rightarrow>
   py_error + DefenseInDepthValidator \<times> (ValidationLevel \<times> ValidationResult) list" where
  "run_validators [] self results = Inr (self, results)"
| "run_validators ((lvl, validate) # rest) self results =
     (case validate self of
        Inl e \<Rightarrow> Inl e
      | Inr result \<Rightarrow>
          if \<not> passed result then Inr (self, dict_set results lvl result)
          else run_validators rest (self\<lparr>current_level := lvl\<rparr>) (dict_set results lvl result))"

definition validators :: "pyval list \<Rightarrow> (ValidationLevel \<times> validator) list" where
  "validators existing_specs =
     [(SYNTAX, validate_level_1_syntax),
      (SEMANTIC, validate_level_2_semantic),
      (COVERAGE, validate_level_3_coverage),
      (CROSS_REFERENCE, \<lambda>self. validate_level_4_cross_reference self existing_specs)]"

definition run_progressive_validation ::
  "DefenseInDepthValidator \<Rightarrow> pyval list \<Rightarrow>
   py_error + DefenseInDepthValidator \<times> (ValidationLevel \<times> ValidationResult) list" where
  "run_progressive_validation self existing_specs =
     run_validators (validators existing_specs) self []"

subsection \<open>Well-formed documents\<close>



subsection \<open>Sections that cannot be iterated, and two example validators\<close>


text \<open>
  A validator whose document passes all four gates, and one whose document is complex
  (it mentions a database and payment) and mentions recovery but no rollback.
\<close>

definition passing_validator :: DefenseInDepthValidator where
  "passing_validator =
     \<lparr>spec_path = \<lparr>path_name = ''shop.md'', suffix = ''.md''\<rparr>,
      spec = [(''user_stories'', PList [PStr ''shop'']),
              (''functional_requirements'', PList [PStr ''FR-1: shop error'']),
              (''acceptance_criteria'', PList [PStr ''shop''])],
      current_level = SYNTAX\<rparr>"

definition complex_validator :: DefenseInDepthValidator where
  "complex_validator =
     \<lparr>spec_path = \<lparr>path_name = ''billing.yaml'', suffix = ''.yaml''\<rparr>,
      spec = [(''user_stories'', PList [PStr ''pay an invoice'']),
              (''functional_requirements'',
               PList [PStr ''FR-1: store the payment in the database'',
                      PStr ''FR-2: recovery after a failed payment'']),
              (''acceptance_criteria'', PList [PStr ''pay an invoice'']),
              (''security_requirements'', PList [PStr ''TLS''])],
      current_level = SYNTAX\<rparr>"

section \<open>Properties of the adversarial review\<close>

subsection \<open>The decision policy\<close>

lemma organize_findings_snd:
  "snd (organize_findings zs (d, al, c)) =
     (al @ concat (map snd zs), c + length (filter (\<lambda>f. severity f = CRITICAL) (concat (map snd zs))))"
  by (induction zs arbitrary: d al c) auto

lemma build_report_returns:
  "metadata_name doc = Inr n \<Longrightarrow> \<exists>r. build_report doc findings_lists = Inr r"
  by (auto simp: build_report_def Let_def split: prod.splits)

text \<open>
  Claim C1. The approval status and the human-review flag of a report are a function of
  the merged finding list alone: with \<open>critical\<close> the number of CRITICAL findings and
  \<open>merged\<close> the merged list, the status is the BLOCKED message when \<open>critical > 0\<close>,
  else the NEEDS_REVIEW message when there are more than 10 findings, else the CONDITIONAL
  message when there is at least one, else the APPROVED message; the flag is
  \<open>critical > 0 \<or> length merged > 5\<close>. No finding gives (APPROVED, false), eleven LOW
  findings give (NEEDS_REVIEW, true), three MEDIUM findings give (CONDITIONAL, false), and
  any list with a CRITICAL finding gives (BLOCKED, true).
\<close>

theorem decision_policy:
  assumes "build_report doc findings_lists = Inr r"
    and "merged = concat (map snd (zip adversaries findings_lists))"
    and "critical = length (filter (\<lambda>f. severity f = CRITICAL) merged)"
  shows "approval_status r =
           (if critical > 0 then ''BLOCKED - Critical findings must be addressed''
            else if length merged > 10 then ''NEEDS_REVIEW - Too many findings''
            else if length merged > 0 then ''CONDITIONAL - Address findings before implementation''
            else ''APPROVED - No significant issues found'')
       \<and> human_review_required r = (critical > 0 \<or> length merged > 5)
       \<and> (merged = [] \<longrightarrow>
            approval_status r = ''APPROVED - No significant issues found''
            \<and> \<not> human_review_required r)
       \<and> (length merged = 11 \<and> (\<forall>f \<in> set merged. severity f = LOW) \<longrightarrow>
            approval_status r = ''NEEDS_REVIEW - Too many findings''
            \<and> human_review_required r)
       \<and> (length merged = 3 \<and> (\<forall>f \<in> set merged. severity f = MEDIUM) \<longrightarrow>
            approval_status r = ''CONDITIONAL - Address findings before implementation''
            \<and> \<not> human_review_required r)
       \<and> ((\<exists>f \<in> set merged. severity f = CRITICAL) \<longrightarrow>
            approval_status r = ''BLOCKED - Critical findings must be addressed''
            \<and> human_review_required r)"
proof -
  obtain d al c where o: "organize_findings (zip adversaries findings_lists) ([], [], 0) = (d, al, c)"
    by (cases "organize_findings (zip adversaries findings_lists) ([], [], 0)") auto
  from organize_findings_snd [of "zip adversaries findings_lists" "[]" "[]" 0] o
  have al: "al = merged" and c: "c = critical"
    using assms(2,3) by auto
  from assms(1) o
  have status: "approval_status r =
           (if critical > 0 then ''BLOCKED - Critical findings must be addressed''
            else if length merged > 10 then ''NEEDS_REVIEW - Too many findings''
            else if length merged > 0 then ''CONDITIONAL - Address findings before implementation''
            else ''APPROVED - No significant issues found'')"
    and review: "human_review_required r = (critical > 0 \<or> length merged > 5)"
    unfolding build_report_def al c
    by (auto simp: Let_def split: sum.splits)
  have no_crit: "critical = 0" if "\<forall>f \<in> set merged. severity f \<noteq> CRITICAL"
    using that unfolding assms(3) by (simp add: filter_empty_conv)
  have some_crit: "critical > 0" if "\<exists>f \<in> set merged. severity f = CRITICAL"
    using that unfolding assms(3) by (simp add: filter_empty_conv)
  have low: "critical = 0" if "\<forall>f \<in> set merged. severity f = LOW"
    using that by (intro no_crit) auto
  have medium: "critical = 0" if "\<forall>f \<in> set merged. severity f = MEDIUM"
    using that by (intro no_crit) auto
  have empty: "critical = 0" if "merged = []"
    using that unfolding assms(3) by simp
  show ?thesis
    unfolding status review
    using low medium empty some_crit by auto
qed

theorem decision_policy_witness:
  "\<exists>r. build_report []
         [replicate 3 \<lparr>adversary = ''Ambiguity Adversary'', severity = MEDIUM,
            issue = ''Vague error handling'', details = ''Error handling'',
            attack_vector = None, misinterpretation = None,
            suggested_defense = None, location = None\<rparr>] = Inr r
       \<and> approval_status r = ''CONDITIONAL - Address findings before implementation''
       \<and> \<not> human_review_required r"
proof -
  let ?f = "\<lparr>adversary = ''Ambiguity Adversary'', severity = MEDIUM,
            issue = ''Vague error handling'', details = ''Error handling'',
            attack_vector = None, misinterpretation = None,
            suggested_defense = None, location = None\<rparr>"
  have "metadata_name [] = Inr (PStr ''unknown'')"
    by (simp add: metadata_name_def dict_get_def)
  from build_report_returns [OF this]
  obtain r where r: "build_report [] [replicate 3 ?f] = Inr r"
    by blast
  have m: "concat (map snd (zip adversaries [replicate 3 ?f])) = replicate 3 ?f"
    by (simp add: adversaries_def)
  from decision_policy [OF r m [symmetric] refl] r show ?thesis
    by auto
qed

subsection \<open>Findings of the Security and Ambiguity adversaries\<close>

lemma findings_append_finding [simp]: "findings (append_finding self f) = findings self @ [f]"
  by (simp add: append_finding_def)

lemma name_append_finding [simp]: "name (append_finding self f) = name self"
  by (simp add: append_finding_def)

lemma injection_finding_emitted:
  assumes "any_in [''execute'', ''shell'', ''command'', ''system'', ''exec''] (lower (py_str (PDict doc)))"
  shows "\<exists>f \<in> set (findings (Security_check_injection_risks self doc)).
           severity f = CRITICAL \<and> issue f = ''Command injection risk''"
  using assms by (simp add: Security_check_injection_risks_def Let_def)

lemma validation_keeps_findings:
  "set (findings self) \<subseteq> set (findings (Security_check_validation self doc))"
  by (auto simp: Security_check_validation_def Let_def)

text \<open>
  Claim C8. Whenever the lower-cased text of the document contains \<^verbatim>\<open>execute\<close>, the
  Security adversary returns a CRITICAL finding with issue "Command injection risk",
  whatever else the document contains.
\<close>

theorem command_injection_unconditional:
  assumes "str_in ''execute'' (lower (py_str (PDict doc)))"
  shows "\<exists>fs. attack_spec SecurityAdversary doc = Inr fs
           \<and> (\<exists>f \<in> set fs. severity f = CRITICAL \<and> issue f = ''Command injection risk'')"
proof -
  have "any_in [''execute'', ''shell'', ''command'', ''system'', ''exec''] (lower (py_str (PDict doc)))"
    using assms by (simp add: any_in_def)
  from injection_finding_emitted [OF this] validation_keeps_findings
  show ?thesis
    unfolding attack_spec_def SecurityAdversary_def
    by (simp add: reset_findings_def await_check_def) blast
qed

theorem command_injection_unconditional_witness:
  "str_in ''execute'' (lower (py_str (PDict [(''functional_requirements'',
        PList [PStr ''FR-1: Execute the nightly job'']), (''notes'', PStr ''input is sanitized and validated'')])))
   \<and> (\<exists>fs. attack_spec SecurityAdversary [(''functional_requirements'',
        PList [PStr ''FR-1: Execute the nightly job'']), (''notes'', PStr ''input is sanitized and validated'')] = Inr fs
           \<and> (\<exists>f \<in> set fs. severity f = CRITICAL \<and> issue f = ''Command injection risk''))"
proof -
  have h: "str_in ''execute'' (lower (py_str (PDict [(''functional_requirements'',
        PList [PStr ''FR-1: Execute the nightly job'']), (''notes'', PStr ''input is sanitized and validated'')])))"
    by code_simp
  from command_injection_unconditional [OF h] h show ?thesis by blast
qed

lemma name_scan_terms [simp]: "name (scan_terms ts req_text self) = name self"
  by (induction ts req_text self rule: scan_terms.induct) auto

lemma findings_scan_terms:
  "findings (scan_terms ts req_text self) =
     findings self @
     map (\<lambda>tg. vague_term_finding (name self) req_text (fst tg) (snd tg))
       (filter (\<lambda>tg. str_in (fst tg) (lower req_text)) ts)"
  by (induction ts req_text self rule: scan_terms.induct) auto

lemma name_scan_requirements [simp]: "name (scan_requirements reqs self) = name self"
  by (induction reqs arbitrary: self) auto

lemma findings_scan_requirements:
  "findings (scan_requirements reqs self) =
     findings self @
     concat (map (\<lambda>req.
        map (\<lambda>tg. vague_term_finding (name self) (py_str req) (fst tg) (snd tg))
          (filter (\<lambda>tg. str_in (fst tg) (lower (py_str req))) vague_terms)) reqs)"
  by (induction reqs arbitrary: self) (auto simp: findings_scan_terms)

lemma scan_requirements_member:
  assumes "req \<in> set reqs" and "(t, g) \<in> set vague_terms" and "str_in t (lower (py_str req))"
  shows "vague_term_finding (name self) (py_str req) t g \<in> set (findings (scan_requirements reqs self))"
  unfolding findings_scan_requirements using assms by force

text \<open>
  Claim C9. When \<^verbatim>\<open>functional_requirements\<close> and \<^verbatim>\<open>non_functional_requirements\<close>
  are lists (or absent), \<^verbatim>\<open>_check_requirements\<close> returns and appends, for every item in
  order and every entry of the vague-term table whose term occurs in the item's lower-cased
  text, one MEDIUM finding whose suggested defense is the entry's guidance. A list with the
  item "FR-1: The system should validate input in a reasonable time" gives a finding for
  'should' with "Use 'MUST' for requirements" and one for 'reasonable' with
  "Specify exact bounds".
\<close>

theorem vague_term_scan:
  assumes fr: "map_of doc ''functional_requirements'' = Some (PList frs)
               \<or> map_of doc ''functional_requirements'' = None \<and> frs = []"
    and nfr: "map_of doc ''non_functional_requirements'' = Some (PList nfrs)
               \<or> map_of doc ''non_functional_requirements'' = None \<and> nfrs = []"
  shows "\<exists>self'. Ambiguity_check_requirements self doc = Inr self'
      \<and> findings self' =
          findings self @
          concat (map (\<lambda>req.
             map (\<lambda>tg. vague_term_finding (name self) (py_str req) (fst tg) (snd tg))
               (filter (\<lambda>tg. str_in (fst tg) (lower (py_str req))) vague_terms)) (frs @ nfrs))
      \<and> (\<forall>f \<in> set (drop (length (findings self)) (findings self')).
            severity f = MEDIUM \<and> (\<exists>tg \<in> set vague_terms. suggested_defense f = Some (snd tg)))
      \<and> (PStr ''FR-1: The system should validate input in a reasonable time'' \<in> set (frs @ nfrs) \<longrightarrow>
           (\<exists>f \<in> set (findings self').
              severity f = MEDIUM
              \<and> issue f = ''Ambiguous term '' @ apos @ ''should'' @ apos @ '' in requirement''
              \<and> suggested_defense f = Some ''Use 'MUST' for requirements'')
         \<and> (\<exists>f \<in> set (findings self').
              severity f = MEDIUM
              \<and> issue f = ''Ambiguous term '' @ apos @ ''reasonable'' @ apos @ '' in requirement''
              \<and> suggested_defense f = Some ''Specify exact bounds''))"
proof -
  have e1: "extend_from doc ''functional_requirements'' = Inr frs"
    using fr by (auto simp: extend_from_def)
  have e2: "extend_from doc ''non_functional_requirements'' = Inr nfrs"
    using nfr by (auto simp: extend_from_def)
  let ?self' = "scan_requirements (frs @ nfrs) self"
  let ?new = "\<lambda>req. map (\<lambda>tg. vague_term_finding (name self) (py_str req) (fst tg) (snd tg))
               (filter (\<lambda>tg. str_in (fst tg) (lower (py_str req))) vague_terms)"
  have run: "Ambiguity_check_requirements self doc = Inr ?self'"
    by (simp add: Ambiguity_check_requirements_def e1 e2)
  have fs: "findings ?self' = findings self @ concat (map ?new (frs @ nfrs))"
    by (rule findings_scan_requirements)
  have new: "\<forall>f \<in> set (drop (length (findings self)) (findings ?self')).
            severity f = MEDIUM \<and> (\<exists>tg \<in> set vague_terms. suggested_defense f = Some (snd tg))"
    unfolding fs by (auto simp: vague_term_finding_def intro: rev_bexI)
  have ex: "(\<exists>f \<in> set (findings ?self').
              severity f = MEDIUM
              \<and> issue f = ''Ambiguous term '' @ apos @ ''should'' @ apos @ '' in requirement''
              \<and> suggested_defense f = Some ''Use 'MUST' for requirements'')
         \<and> (\<exists>f \<in> set (findings ?self').
              severity f = MEDIUM
              \<and> issue f = ''Ambiguous term '' @ apos @ ''reasonable'' @ apos @ '' in requirement''
              \<and> suggested_defense f = Some ''Specify exact bounds'')"
    if mem: "PStr ''FR-1: The system should validate input in a reasonable time'' \<in> set (frs @ nfrs)"
  proof -
    have "(''should'', ''Use 'MUST' for requirements'') \<in> set vague_terms"
      and "(''reasonable'', ''Specify exact bounds'') \<in> set vague_terms"
      by (simp_all add: vague_terms_def)
    moreover have
      "str_in ''should'' (lower (py_str (PStr ''FR-1: The system should validate input in a reasonable time'')))"
      "str_in ''reasonable'' (lower (py_str (PStr ''FR-1: The system should validate input in a reasonable time'')))"
      by code_simp+
    ultimately have m:
      "vague_term_finding (name self)
         (py_str (PStr ''FR-1: The system should validate input in a reasonable time''))
         ''should'' ''Use 'MUST' for requirements'' \<in> set (findings ?self')"
      "vague_term_finding (name self)
         (py_str (PStr ''FR-1: The system should validate input in a reasonable time''))
         ''reasonable'' ''Specify exact bounds'' \<in> set (findings ?self')"
      using mem by (blast intro: scan_requirements_member)+
    have "\<exists>f \<in> set (findings ?self').
              severity f = MEDIUM
              \<and> issue f = ''Ambiguous term '' @ apos @ ''should'' @ apos @ '' in requirement''
              \<and> suggested_defense f = Some ''Use 'MUST' for requirements''"
      using m(1) by (rule rev_bexI) (simp add: vague_term_finding_def)
    moreover have "\<exists>f \<in> set (findings ?self').
              severity f = MEDIUM
              \<and> issue f = ''Ambiguous term '' @ apos @ ''reasonable'' @ apos @ '' in requirement''
              \<and> suggested_defense f = Some ''Specify exact bounds''"
      using m(2) by (rule rev_bexI) (simp add: vague_term_finding_def)
    ultimately show ?thesis by blast
  qed
  from run fs new ex show ?thesis by blast
qed


theorem vague_term_scan_witness:
  "\<exists>self'. Ambiguity_check_requirements \<lparr>name = ''Ambiguity Adversary'', findings = []\<rparr>
        [(''functional_requirements'',
          PList [PStr ''FR-1: The system should validate input in a reasonable time''])] = Inr self'
     \<and> (\<exists>f \<in> set (findings self').
              severity f = MEDIUM
              \<and> issue f = ''Ambiguous term '' @ apos @ ''should'' @ apos @ '' in requirement''
              \<and> suggested_defense f = Some ''Use 'MUST' for requirements'')
     \<and> (\<exists>f \<in> set (findings self').
              severity f = MEDIUM
              \<and> issue f = ''Ambiguous term '' @ apos @ ''reasonable'' @ apos @ '' in requirement''
              \<and> suggested_defense f = Some ''Specify exact bounds'')"
  using vague_term_scan [of
      "[(''functional_requirements'',
          PList [PStr ''FR-1: The system should validate input in a reasonable time''])]"
      "[PStr ''FR-1: The system should validate input in a reasonable time'']" "[]"
      "\<lparr>name = ''Ambiguity Adversary'', findings = []\<rparr>"]
  by auto

subsection \<open>Schedules of the event loop\<close>









lemma run_schedule_append:
  "run_schedule (s1 @ s2) ts doc =
     (case run_schedule s1 ts doc of Inl e \<Rightarrow> Inl e | Inr ts' \<Rightarrow> run_schedule s2 ts' doc)"
  by (induction s1 arbitrary: ts) (auto split: sum.splits)

lemma run_schedule_replicate:
  "length pre = k \<Longrightarrow>
   run_schedule (replicate (length cs) k) (pre @ (self, cs) # rest) doc =
     (case run_checks cs self doc of
        Inl e \<Rightarrow> Inl e
      | Inr self' \<Rightarrow> Inr (pre @ (self', []) # rest))"
  by (induction cs arbitrary: self) (auto split: sum.splits)

lemma run_schedule_in_order:
  "length pre = k \<Longrightarrow>
   run_schedule (concat (map (\<lambda>ia. replicate (length (snd (snd ia))) (fst ia)) (enumerate k rest)))
       (pre @ rest) doc =
     (case finish_all rest doc of Inl e \<Rightarrow> Inl e | Inr rest' \<Rightarrow> Inr (pre @ rest'))"
proof (induction rest arbitrary: pre k)
  case Nil
  then show ?case by simp
next
  case (Cons t rest)
  obtain self cs where t: "t = (self, cs)" by (cases t)
  show ?case
  proof (cases "run_checks cs self doc")
    case (Inl e)
    with Cons.prems show ?thesis
      by (simp add: t run_schedule_append run_schedule_replicate)
  next
    case (Inr self')
    have "length (pre @ [(self', [])]) = Suc k" using Cons.prems by simp
    from Cons.IH [OF this] Inr Cons.prems show ?thesis
      by (simp add: t run_schedule_append run_schedule_replicate split: sum.splits)
  qed
qed

lemma finish_all_finished:
  "finish_all advs doc = Inr ts \<Longrightarrow> list_all finished ts"
  by (induction advs arbitrary: ts) (auto split: sum.splits)

lemma finish_all_attack_all:
  "attack_all advs doc =
     (case finish_all advs doc of Inl e \<Rightarrow> Inl e | Inr ts \<Rightarrow> Inr (map (\<lambda>t. findings (fst t)) ts))"
  by (induction advs) (auto simp: attack_spec_def split: sum.splits)

lemma gather_registration_schedule:
  "gather (registration_schedule advs) advs doc = Some (attack_all advs doc)"
  using run_schedule_in_order [of "[]" 0 advs doc]
  by (auto simp: gather_def registration_schedule_def finish_all_attack_all
      dest: finish_all_finished split: sum.splits)


subsection \<open>The fields of a report\<close>

lemma dict_set_fresh: "k \<notin> fst ` set d \<Longrightarrow> dict_set d k v = d @ [(k, v)]"
  by (induction d) auto

lemma organize_findings_fst:
  "distinct (map (\<lambda>z. name (fst (fst z))) zs) \<Longrightarrow>
   \<forall>z \<in> set zs. name (fst (fst z)) \<notin> fst ` set d \<Longrightarrow>
   fst (organize_findings zs (d, al, c)) = d @ map (\<lambda>z. (name (fst (fst z)), snd z)) zs"
proof (induction zs arbitrary: d al c)
  case Nil
  then show ?case by simp
next
  case (Cons z zs)
  obtain a fs where z: "z = (a, fs)" by (cases z)
  have fresh: "name (fst a) \<notin> fst ` set d" using Cons.prems(2) by (simp add: z)
  have "\<forall>z' \<in> set zs. name (fst (fst z')) \<notin> fst ` set (d @ [(name (fst a), fs)])"
    using Cons.prems by (auto simp: z image_iff)
  with Cons.IH [of "d @ [(name (fst a), fs)]"] Cons.prems(1) fresh show ?case
    by (simp add: z dict_set_fresh)
qed

lemma adversary_names:
  "map (\<lambda>a. name (fst a)) adversaries =
     [''Security Adversary'', ''Ambiguity Adversary'', ''Implementation Adversary'',
      ''Performance Adversary'', ''Compliance Adversary'']"
  by (simp add: adversaries_def SecurityAdversary_def AmbiguityAdversary_def
      ImplementationAdversary_def PerformanceAdversary_def ComplianceAdversary_def)

lemma adversary_names_distinct: "distinct (map (\<lambda>a. name (fst a)) adversaries)"
  unfolding adversary_names by simp

lemma zip_names_distinct:
  "distinct (map (\<lambda>z. name (fst (fst z))) (zip adversaries fls))"
proof -
  have "map (\<lambda>z. name (fst (fst z))) (zip adversaries fls)
        = take (length fls) (map (\<lambda>a. name (fst a)) adversaries)"
    by (simp add: list_eq_iff_nth_eq)
  then show ?thesis
    using adversary_names_distinct by (simp only: distinct_take)
qed

lemma generate_defenses_filter:
  "generate_defenses fs =
     map (\<lambda>f. [(''issue'', issue f), (''change'', the (suggested_defense f)),
               (''severity'', severity_value (severity f))])
       (filter (\<lambda>f. suggested_defense f \<noteq> None \<and> suggested_defense f \<noteq> Some []) fs)"
  by (induction fs) (auto split: option.splits)

lemma build_report_fields:
  assumes "build_report doc fls = Inr r"
  shows "findings_by_adversary r = map (\<lambda>z. (name (fst (fst z)), snd z)) (zip adversaries fls)"
    and "total_findings r = length (concat (map snd (zip adversaries fls)))"
    and "critical_findings r =
           length (filter (\<lambda>f. severity f = CRITICAL) (concat (map snd (zip adversaries fls))))"
    and "defended_spec_changes r = generate_defenses (concat (map snd (zip adversaries fls)))"
proof -
  obtain d al c where o: "organize_findings (zip adversaries fls) ([], [], 0) = (d, al, c)"
    by (cases "organize_findings (zip adversaries fls) ([], [], 0)") auto
  from organize_findings_snd [of "zip adversaries fls" "[]" "[]" 0] o
  have al: "al = concat (map snd (zip adversaries fls))"
    and c: "c = length (filter (\<lambda>f. severity f = CRITICAL) (concat (map snd (zip adversaries fls))))"
    by auto
  from organize_findings_fst [OF zip_names_distinct, of fls "[]" "[]" 0] o
  have d: "d = map (\<lambda>z. (name (fst (fst z)), snd z)) (zip adversaries fls)"
    by simp
  from assms o obtain n where
    r: "r = \<lparr>spec_name = n, total_findings = length al, critical_findings = c,
             findings_by_adversary = d, defended_spec_changes = generate_defenses al,
             approval_status =
               (if c > 0 then ''BLOCKED - Critical findings must be addressed''
                else if length al > 10 then ''NEEDS_REVIEW - Too many findings''
                else if length al > 0 then ''CONDITIONAL - Address findings before implementation''
                else ''APPROVED - No significant issues found''),
             human_review_required = (c > 0 \<or> length al > 5)\<rparr>"
    by (auto simp: build_report_def Let_def split: sum.splits)
  show "findings_by_adversary r = map (\<lambda>z. (name (fst (fst z)), snd z)) (zip adversaries fls)"
    by (simp add: r d)
  show "total_findings r = length (concat (map snd (zip adversaries fls)))"
    by (simp add: r al)
  show "critical_findings r =
           length (filter (\<lambda>f. severity f = CRITICAL) (concat (map snd (zip adversaries fls))))"
    by (simp add: r c)
  show "defended_spec_changes r = generate_defenses (concat (map snd (zip adversaries fls)))"
    by (simp add: r al)
qed

text \<open>
  Claim C10. In every report \<^verbatim>\<open>run_review\<close> returns, \<^verbatim>\<open>total_findings\<close> is the sum of
  the lengths of the lists in \<^verbatim>\<open>findings_by_adversary\<close>, \<^verbatim>\<open>critical_findings\<close> is the
  number of CRITICAL findings among them, and \<^verbatim>\<open>defended_spec_changes\<close> has one entry
  (issue, suggested defense, severity) for each finding with a non-empty suggested
  defense, in the order of the merged list.
\<close>

theorem report_counts_consistent:
  assumes "run_review sched doc = Some (Inr r)"
  shows "total_findings r = sum_list (map (\<lambda>kv. length (snd kv)) (findings_by_adversary r))
       \<and> critical_findings r =
           length (filter (\<lambda>f. severity f = CRITICAL) (concat (map snd (findings_by_adversary r))))
       \<and> defended_spec_changes r =
           map (\<lambda>f. [(''issue'', issue f), (''change'', the (suggested_defense f)),
                     (''severity'', severity_value (severity f))])
             (filter (\<lambda>f. suggested_defense f \<noteq> None \<and> suggested_defense f \<noteq> Some [])
                (concat (map snd (findings_by_adversary r))))"
proof -
  from assms obtain fls where b: "build_report doc fls = Inr r"
    by (auto simp: run_review_def split: option.splits sum.splits)
  have m: "map snd (findings_by_adversary r) = map snd (zip adversaries fls)"
    by (simp add: build_report_fields(1) [OF b] comp_def)
  have "sum_list (map (\<lambda>kv. length (snd kv)) (findings_by_adversary r))
        = length (concat (map snd (findings_by_adversary r)))"
    by (simp add: length_concat comp_def)
  then show ?thesis
    unfolding m
    by (simp add: build_report_fields(2-4) [OF b] generate_defenses_filter)
qed


subsection \<open>Determinism of the review\<close>

lemma attack_spec_pure:
  "\<exists>fs. attack_spec SecurityAdversary doc = Inr fs"
  "\<exists>fs. attack_spec ImplementationAdversary doc = Inr fs"
  "\<exists>fs. attack_spec PerformanceAdversary doc = Inr fs"
  "\<exists>fs. attack_spec ComplianceAdversary doc = Inr fs"
  by (simp_all add: attack_spec_def SecurityAdversary_def ImplementationAdversary_def
      PerformanceAdversary_def ComplianceAdversary_def reset_findings_def await_check_def)




lemma run_review_registration_schedule:
  "run_review (registration_schedule adversaries) doc = Some (review_in_order doc)"
  by (simp add: run_review_def review_in_order_def gather_registration_schedule split: sum.splits)



lemma attack_spec_ignores_earlier_findings:
  assumes "a \<in> set adversaries"
  shows "attack_spec (fst a\<lparr>findings := fs\<rparr>, snd a) doc = attack_spec a doc"
  using assms
  by (auto simp: adversaries_def attack_spec_def SecurityAdversary_def AmbiguityAdversary_def
      ImplementationAdversary_def PerformanceAdversary_def ComplianceAdversary_def
      reset_findings_def)



lemma review_in_order_returns:
  assumes "extend_from doc ''functional_requirements'' = Inr frs"
    and "extend_from doc ''non_functional_requirements'' = Inr nfrs"
    and "metadata_name doc = Inr n"
  shows "\<exists>r. review_in_order doc = Inr r"
proof -
  have "\<exists>fs. attack_spec AmbiguityAdversary doc = Inr fs"
    using assms(1,2)
    by (simp add: attack_spec_def AmbiguityAdversary_def reset_findings_def await_check_def
        Ambiguity_check_requirements_def)
  with attack_spec_pure [of doc] obtain fls where "attack_all adversaries doc = Inr fls"
    by (auto simp: adversaries_def)
  with build_report_returns [OF assms(3)] show ?thesis
    by (simp add: review_in_order_def)
qed


theorem report_counts_consistent_witness:
  "\<exists>r. run_review (registration_schedule adversaries)
          [(''metadata'', PDict [(''name'', PStr ''orders'')]),
           (''functional_requirements'', PList [PStr ''FR-1: The service MUST exec the job'']),
           (''count'', PInt 3)] = Some (Inr r)
     \<and> total_findings r = sum_list (map (\<lambda>kv. length (snd kv)) (findings_by_adversary r))
     \<and> critical_findings r =
           length (filter (\<lambda>f. severity f = CRITICAL) (concat (map snd (findings_by_adversary r))))"
proof -
  let ?doc = "[(''metadata'', PDict [(''name'', PStr ''orders'')]),
           (''functional_requirements'', PList [PStr ''FR-1: The service MUST exec the job'']),
           (''count'', PInt 3)]"
  have "\<exists>r. review_in_order ?doc = Inr r"
    by (rule review_in_order_returns [where frs = "[PStr ''FR-1: The service MUST exec the job'']"
          and nfrs = "[]" and n = "PStr ''orders''"])
       (simp_all add: extend_from_def metadata_name_def dict_get_def)
  then obtain r where "run_review (registration_schedule adversaries) ?doc = Some (Inr r)"
    by (auto simp: run_review_registration_schedule)
  from report_counts_consistent [OF this] this show ?thesis by blast
qed

section \<open>Properties of the validation gates\<close>

subsection \<open>The runner and the readiness flag\<close>

lemma set_dict_set: "set (dict_set d k v) \<subseteq> insert (k, v) (set d)"
  by (induction d) (auto split: if_splits)

lemma run_validators_entries:
  assumes "run_validators vs self results = Inr (self', results')"
    and "\<And>l v s r. (l, v) \<in> set vs \<Longrightarrow> v s = Inr r \<Longrightarrow> P l r"
    and "\<And>l r. (l, r) \<in> set results \<Longrightarrow> P l r"
  shows "(l, r) \<in> set results' \<Longrightarrow> P l r"
  using assms
proof (induction vs arbitrary: self results)
  case Nil
  then show ?case by simp
next
  case (Cons lv vs)
  obtain l0 v0 where lv: "lv = (l0, v0)" by (cases lv)
  from Cons.prems(2) obtain r0 where r0: "v0 self = Inr r0"
    by (auto simp: lv split: sum.splits)
  have P0: "P l0 r0" using Cons.prems(3) [of l0 v0 self r0] r0 by (simp add: lv)
  have ds: "\<And>l r. (l, r) \<in> set (dict_set results l0 r0) \<Longrightarrow> P l r"
    using set_dict_set [of results l0 r0] P0 Cons.prems(4) by auto
  show ?case
  proof (cases "passed r0")
    case False
    with Cons.prems(2) r0 have "results' = dict_set results l0 r0" by (simp add: lv)
    with ds Cons.prems(1) show ?thesis by blast
  next
    case True
    with Cons.prems(2) r0
    have "run_validators vs (self\<lparr>current_level := l0\<rparr>) (dict_set results l0 r0)
          = Inr (self', results')"
      by (simp add: lv)
    from Cons.IH [OF Cons.prems(1) this _ ds] Cons.prems(3) show ?thesis
      by (auto simp: lv)
  qed
qed

lemma level_1_not_ready:
  "validate_level_1_syntax s = Inr r \<Longrightarrow>
     \<not> ready_for_adversarial r \<and> level r = SYNTAX \<and> passed r = (errors r = [])"
  by (auto simp: validate_level_1_syntax_def Let_def split: sum.splits option.splits)

lemma level_2_not_ready:
  "validate_level_2_semantic s = Inr r \<Longrightarrow>
     \<not> ready_for_adversarial r \<and> level r = SEMANTIC \<and> passed r = (errors r = [])"
  by (auto simp: validate_level_2_semantic_def Let_def split: sum.splits option.splits prod.splits)

lemma level_3_not_ready:
  "validate_level_3_coverage s = Inr r \<Longrightarrow>
     \<not> ready_for_adversarial r \<and> level r = COVERAGE \<and> passed r = (errors r = [])"
  by (auto simp: validate_level_3_coverage_def Let_def split: sum.splits option.splits)

lemma level_4_ready:
  "validate_level_4_cross_reference s ex = Inr r \<Longrightarrow>
     ready_for_adversarial r = passed r \<and> level r = CROSS_REFERENCE
     \<and> passed r = (errors r = [])"
  by (auto simp: validate_level_4_cross_reference_def Let_def split: sum.splits option.splits)

text \<open>
  Claim C4. In every map \<^verbatim>\<open>run_progressive_validation\<close> returns, the result of a level
  has \<^verbatim>\<open>ready_for_adversarial\<close> true exactly when the level is CROSS_REFERENCE and the
  result passed; the results of the syntax, semantic and coverage gates have it false
  whether they passed or not, and the cross-reference gate sets it to \<^verbatim>\<open>passed\<close>.
\<close>

theorem ready_only_after_cross_reference:
  assumes "run_progressive_validation self existing_specs = Inr (self', results)"
  shows "(\<forall>lr \<in> set results.
            ready_for_adversarial (snd lr) = (fst lr = CROSS_REFERENCE \<and> passed (snd lr)))
       \<and> (\<forall>r. validate_level_1_syntax self = Inr r \<longrightarrow> \<not> ready_for_adversarial r)
       \<and> (\<forall>r. validate_level_2_semantic self = Inr r \<longrightarrow> \<not> ready_for_adversarial r)
       \<and> (\<forall>r. validate_level_3_coverage self = Inr r \<longrightarrow> \<not> ready_for_adversarial r)
       \<and> (\<forall>r. validate_level_4_cross_reference self existing_specs = Inr r \<longrightarrow>
              ready_for_adversarial r = passed r)"
proof -
  have "ready_for_adversarial r = (l = CROSS_REFERENCE \<and> passed r)"
    if "(l, r) \<in> set results" for l r
  proof (rule run_validators_entries
      [where P = "\<lambda>l r. ready_for_adversarial r = (l = CROSS_REFERENCE \<and> passed r)",
        OF assms [unfolded run_progressive_validation_def] _ _ that])
    fix l v s r
    assume "(l, v) \<in> set (validators existing_specs)" and "v s = Inr r"
    then show "ready_for_adversarial r = (l = CROSS_REFERENCE \<and> passed r)"
      using level_1_not_ready [of s r] level_2_not_ready [of s r] level_3_not_ready [of s r]
        level_4_ready [of s existing_specs r]
      by (auto simp: validators_def)
  next
    fix l :: ValidationLevel and r :: ValidationResult
    assume "(l, r) \<in> set []"
    then show "ready_for_adversarial r = (l = CROSS_REFERENCE \<and> passed r)" by simp
  qed
  then show ?thesis
    using level_1_not_ready [of self] level_2_not_ready [of self] level_3_not_ready [of self]
      level_4_ready [of self existing_specs]
    by auto
qed


subsection \<open>Gate ordering and the complexity rule\<close>

lemma validators_read_spec_and_path:
  assumes "spec s1 = spec s2" and "spec_path s1 = spec_path s2"
  shows "validate_level_1_syntax s1 = validate_level_1_syntax s2"
    and "validate_level_2_semantic s1 = validate_level_2_semantic s2"
    and "validate_level_3_coverage s1 = validate_level_3_coverage s2"
    and "validate_level_4_cross_reference s1 ex = validate_level_4_cross_reference s2 ex"
  unfolding validate_level_1_syntax_def validate_level_2_semantic_def
      validate_level_3_coverage_def validate_level_4_cross_reference_def
      find_technical_terms_def is_complex_spec_def check_spec_conflicts_def
      is_update_to_existing_def assms
  by (rule refl)+

lemma validators_ignore_current_level [simp]:
  "validate_level_1_syntax (s\<lparr>current_level := l\<rparr>) = validate_level_1_syntax s"
  "validate_level_2_semantic (s\<lparr>current_level := l\<rparr>) = validate_level_2_semantic s"
  "validate_level_3_coverage (s\<lparr>current_level := l\<rparr>) = validate_level_3_coverage s"
  "validate_level_4_cross_reference (s\<lparr>current_level := l\<rparr>) ex = validate_level_4_cross_reference s ex"
  by (rule validators_read_spec_and_path; simp)+





lemma undefined_terms_dict:
  "undefined_terms (PDict d) ts = Inr (filter (\<lambda>t. \<not> has_key d t) ts)"
  by (induction ts) auto











text \<open>
  Claim C6. For a document whose \<^verbatim>\<open>functional_requirements\<close> is a list (or absent),
  \<^verbatim>\<open>_is_complex_spec\<close> returns true exactly when at least two of the five indicators
  hold: the lower-cased text contains "database", "migration", "payment", there are more
  than 10 functional requirements, the text contains "distributed". When the spec is
  complex and its text does not contain "rollback", the result of the coverage gate has
  the error "Complex spec lacks rollback procedures" and has not passed.
\<close>

theorem complexity_gate:
  assumes "map_of (spec self) ''functional_requirements'' = Some (PList frs)
           \<or> map_of (spec self) ''functional_requirements'' = None \<and> frs = []"
    and "spec_text = lower (py_str (PDict (spec self)))"
  shows "is_complex_spec self =
           Inr (2 \<le> length (filter (\<lambda>b. b)
                  [str_in ''database'' spec_text, str_in ''migration'' spec_text,
                   str_in ''payment'' spec_text, length frs > 10,
                   str_in ''distributed'' spec_text]))
       \<and> (\<forall>r. validate_level_3_coverage self = Inr r \<and> is_complex_spec self = Inr True
               \<and> \<not> str_in ''rollback'' spec_text \<longrightarrow>
             ''Complex spec lacks rollback procedures'' \<in> set (errors r) \<and> \<not> passed r)"
proof -
  have len: "py_len (dict_get (spec self) ''functional_requirements'' (PList [])) = Inr (length frs)"
    using assms(1) by (auto simp: dict_get_def)
  have c: "is_complex_spec self =
           Inr (2 \<le> length (filter (\<lambda>b. b)
                  [str_in ''database'' spec_text, str_in ''migration'' spec_text,
                   str_in ''payment'' spec_text, length frs > 10,
                   str_in ''distributed'' spec_text]))"
    unfolding is_complex_spec_def assms(2) len by (simp add: Let_def)
  have e: "''Complex spec lacks rollback procedures'' \<in> set (errors r) \<and> \<not> passed r"
    if "validate_level_3_coverage self = Inr r" and "is_complex_spec self = Inr True"
      and "\<not> str_in ''rollback'' spec_text" for r
    using that unfolding validate_level_3_coverage_def assms(2)
    by (auto simp: Let_def split: sum.splits)
  from c e show ?thesis by blast
qed

subsection \<open>Runs on the example validators\<close>

lemma level_1_passes:
  assumes "map_of (spec s) ''user_stories'' = Some us" and "truthy us"
    and "map_of (spec s) ''functional_requirements'' = Some (PList reqs)" and "reqs \<noteq> []"
    and "map_of (spec s) ''acceptance_criteria'' = Some ac" and "truthy ac"
  shows "\<exists>r. validate_level_1_syntax s = Inr r \<and> passed r"
  using assms by (simp add: validate_level_1_syntax_def section_missing_def Let_def)

lemma level_2_passes:
  assumes "map_of (spec s) ''user_stories'' = Some (PList stories)"
    and "map_of (spec s) ''functional_requirements'' = Some (PList reqs)"
    and "map_of (spec s) ''definitions'' = None"
    and "pair_conflicts 0 reqs = []"
    and "\<not> any_in [''payment'', ''password'', ''auth'', ''credit'', ''personal'', ''private'']
             (lower (py_str (PDict (spec s))))"
  shows "\<exists>r. validate_level_2_semantic s = Inr r \<and> passed r"
  using assms
  by (simp add: validate_level_2_semantic_def conflict_errors_def dict_get_def
      undefined_terms_dict Let_def)

lemma level_3_passes:
  assumes "map_of (spec s) ''user_stories'' = Some (PList stories)"
    and "map_of (spec s) ''acceptance_criteria'' = Some (PList criteria_list)"
    and "is_complex_spec s = Inr False"
    and "any_in [''error'', ''fail'', ''invalid'', ''exception'', ''timeout'']
           (lower (py_str (PDict (spec s))))"
  shows "\<exists>r. validate_level_3_coverage s = Inr r \<and> passed r"
  using assms
  by (simp add: validate_level_3_coverage_def story_warnings_def dict_get_def Let_def)

lemma level_4_passes:
  assumes "\<not> has_key (spec s) ''interfaces''"
    and "\<not> str_in ''api'' (lower (py_str (PDict (spec s))))"
    and "\<not> is_update_to_existing s"
  shows "\<exists>r. validate_level_4_cross_reference s [] = Inr r \<and> passed r \<and> ready_for_adversarial r"
  using assms
  by (simp add: validate_level_4_cross_reference_def check_spec_conflicts_def Let_def)


lemma level_3_returns:
  assumes "map_of (spec s) ''user_stories'' = Some (PList stories)"
    and "map_of (spec s) ''acceptance_criteria'' = Some (PList criteria_list)"
    and "is_complex_spec s = Inr b"
  shows "\<exists>r. validate_level_3_coverage s = Inr r"
  using assms
  by (simp add: validate_level_3_coverage_def story_warnings_def dict_get_def Let_def)

lemma run_all_levels:
  assumes "validate_level_1_syntax s = Inr r1" and "passed r1"
    and "validate_level_2_semantic s = Inr r2" and "passed r2"
    and "validate_level_3_coverage s = Inr r3" and "passed r3"
    and "validate_level_4_cross_reference s ex = Inr r4"
  shows "\<exists>s'. run_progressive_validation s ex =
           Inr (s', [(SYNTAX, r1), (SEMANTIC, r2), (COVERAGE, r3), (CROSS_REFERENCE, r4)])"
  using assms by (simp add: run_progressive_validation_def validators_def)

lemma passing_text:
  "lower (py_str (PDict (spec passing_validator))) =
   ''{'' @ apos @ ''user_stories'' @ apos @ '': ['' @ apos @ ''shop'' @ apos @ ''], '' @ apos @
   ''functional_requirements'' @ apos @ '': ['' @ apos @ ''fr-1: shop error'' @ apos @ ''], '' @ apos @
   ''acceptance_criteria'' @ apos @ '': ['' @ apos @ ''shop'' @ apos @ '']}''"
  unfolding passing_validator_def by code_simp

lemma passing_level_1: "\<exists>r. validate_level_1_syntax passing_validator = Inr r \<and> passed r"
  by (rule level_1_passes [where us = "PList [PStr ''shop'']" and ac = "PList [PStr ''shop'']"
        and reqs = "[PStr ''FR-1: shop error'']"]) (simp_all add: passing_validator_def)

lemma passing_level_2: "\<exists>r. validate_level_2_semantic passing_validator = Inr r \<and> passed r"
proof (rule level_2_passes [where stories = "[PStr ''shop'']" and reqs = "[PStr ''FR-1: shop error'']"])
  show "\<not> any_in [''payment'', ''password'', ''auth'', ''credit'', ''personal'', ''private'']
             (lower (py_str (PDict (spec passing_validator))))"
    unfolding passing_text by (simp add: any_in_def)
qed (simp_all add: passing_validator_def)

lemma passing_level_3: "\<exists>r. validate_level_3_coverage passing_validator = Inr r \<and> passed r"
proof (rule level_3_passes [where stories = "[PStr ''shop'']" and criteria_list = "[PStr ''shop'']"])
  show "any_in [''error'', ''fail'', ''invalid'', ''exception'', ''timeout'']
           (lower (py_str (PDict (spec passing_validator))))"
    unfolding passing_text by (simp add: any_in_def)
  show "is_complex_spec passing_validator = Inr False"
    unfolding is_complex_spec_def passing_text by (simp add: passing_validator_def dict_get_def)
qed (simp_all add: passing_validator_def)

lemma passing_level_4:
  "\<exists>r. validate_level_4_cross_reference passing_validator [] = Inr r \<and> passed r
       \<and> ready_for_adversarial r"
proof (rule level_4_passes)
  show "\<not> str_in ''api'' (lower (py_str (PDict (spec passing_validator))))"
    unfolding passing_text by simp
  show "\<not> is_update_to_existing passing_validator"
    unfolding is_update_to_existing_def passing_text
    by (simp add: passing_validator_def lower_def lower_char_def is_upper_char_def)
qed (simp_all add: passing_validator_def has_key_def)

theorem ready_only_after_cross_reference_witness:
  "\<exists>self' r1 r2 r3 r4.
      run_progressive_validation passing_validator [] =
        Inr (self', [(SYNTAX, r1), (SEMANTIC, r2), (COVERAGE, r3), (CROSS_REFERENCE, r4)])
    \<and> passed r1 \<and> \<not> ready_for_adversarial r1
    \<and> passed r2 \<and> \<not> ready_for_adversarial r2
    \<and> passed r3 \<and> \<not> ready_for_adversarial r3
    \<and> passed r4 \<and> ready_for_adversarial r4"
proof -
  from passing_level_1 passing_level_2 passing_level_3 passing_level_4
  obtain r1 r2 r3 r4 where
    l: "validate_level_1_syntax passing_validator = Inr r1" "passed r1"
       "validate_level_2_semantic passing_validator = Inr r2" "passed r2"
       "validate_level_3_coverage passing_validator = Inr r3" "passed r3"
       "validate_level_4_cross_reference passing_validator [] = Inr r4" "passed r4"
    by blast
  from run_all_levels [OF l(1-7)] obtain self' where
    run: "run_progressive_validation passing_validator [] =
           Inr (self', [(SYNTAX, r1), (SEMANTIC, r2), (COVERAGE, r3), (CROSS_REFERENCE, r4)])"
    by blast
  from ready_only_after_cross_reference [OF run] l run show ?thesis
    by (intro exI [of _ self'] exI [of _ r1] exI [of _ r2] exI [of _ r3] exI [of _ r4]) simp
qed


lemma complex_text:
  "lower (py_str (PDict (spec complex_validator))) =
   ''{'' @ apos @ ''user_stories'' @ apos @ '': ['' @ apos @ ''pay an invoice'' @ apos @ ''], '' @ apos @
   ''functional_requirements'' @ apos @ '': ['' @ apos @ ''fr-1: store the payment in the database''
   @ apos @ '', '' @ apos @ ''fr-2: recovery after a failed payment'' @ apos @ ''], '' @ apos @
   ''acceptance_criteria'' @ apos @ '': ['' @ apos @ ''pay an invoice'' @ apos @ ''], '' @ apos @
   ''security_requirements'' @ apos @ '': ['' @ apos @ ''tls'' @ apos @ '']}''"
  unfolding complex_validator_def by code_simp

theorem complexity_gate_witness:
  "is_complex_spec complex_validator = Inr True
   \<and> (\<exists>r. validate_level_3_coverage complex_validator = Inr r
         \<and> ''Complex spec lacks rollback procedures'' \<in> set (errors r) \<and> \<not> passed r)"
proof -
  have fr: "map_of (spec complex_validator) ''functional_requirements'' =
              Some (PList [PStr ''FR-1: store the payment in the database'',
                           PStr ''FR-2: recovery after a failed payment''])
            \<or> map_of (spec complex_validator) ''functional_requirements'' = None
              \<and> [PStr ''FR-1: store the payment in the database'',
                  PStr ''FR-2: recovery after a failed payment''] = []"
    by (simp add: complex_validator_def)
  note g = complexity_gate [OF fr complex_text [symmetric]]
  have c: "is_complex_spec complex_validator = Inr True"
    using g by simp
  have "\<not> str_in ''rollback'' (lower (py_str (PDict (spec complex_validator))))"
    unfolding complex_text by simp
  moreover obtain r where "validate_level_3_coverage complex_validator = Inr r"
    using level_3_returns [OF _ _ c, where stories = "[PStr ''pay an invoice'']"
        and criteria_list = "[PStr ''pay an invoice'']"]
    by (auto simp: complex_validator_def)
  ultimately show ?thesis
    using g c by (auto simp: complex_text)
qed

text \<open>
  Claim C7 on the code. \<^verbatim>\<open>re.findall\<close> with a pattern that has one group returns the
  text of the group: \<^verbatim>\<open>_extract_apis\<close> keeps the method and drops the path. A document
  with \<^verbatim>\<open>GET /users\<close> and a sibling with \<^verbatim>\<open>GET /orders\<close> share no endpoint, and
  the cross-reference gate still reports a duplicate endpoint.
\<close>

theorem method_only_conflict:
  "extract_apis (PDict [(''functional_requirements'', PList [PStr ''FR-1: GET /users''])]) = [''GET'']
   \<and> validate_level_4_cross_reference
        \<lparr>spec_path = \<lparr>path_name = ''users.yaml'', suffix = ''.yaml''\<rparr>,
         spec = [(''functional_requirements'', PList [PStr ''FR-1: GET /users''])],
         current_level = COVERAGE\<rparr>
        [PDict [(''metadata'', PDict [(''name'', PStr ''orders'')]),
                (''functional_requirements'', PList [PStr ''FR-1: GET /orders''])]]
      = Inr \<lparr>passed = False, level = CROSS_REFERENCE,
              errors = [''Conflict with orders: Duplicate API endpoint: GET''],
              warnings = [''No explicit dependencies stated''],
              suggestions = [''Add dependencies section listing all external systems and libraries''],
              ready_for_adversarial = False\<rparr>"
  by code_simp

subsection \<open>Rule evaluation on sections that cannot be iterated\<close>









end
